theory Spec2Isabelle
  imports Complex_Main "HOL-Library.Sublist"
begin

section \<open>Paths, the file system and the pattern library\<close>

text \<open>
  A path is the list of its components; \<open>join p n\<close> appends components and
  \<open>relative\<close> is the path of \<open>to\<close> seen from \<open>from\<close>, as Node's
  \<open>path.relative\<close> computes it on absolute normalised paths: the common
  prefix is dropped and every remaining component of \<open>from\<close> becomes \<open>..\<close>.
\<close>

type_synonym path = "string list"

definition join :: "path \<Rightarrow> path \<Rightarrow> path" where
  "join p q = p @ q"

fun common_prefix_len :: "path \<Rightarrow> path \<Rightarrow> nat" where
  "common_prefix_len (x # xs) (y # ys) = (if x = y then Suc (common_prefix_len xs ys) else 0)"
| "common_prefix_len _ _ = 0"

definition relative :: "path \<Rightarrow> path \<Rightarrow> path" where
  "relative from to =
     (let n = common_prefix_len from to
      in replicate (length from - n) ''..'' @ drop n to)"

text \<open>
  The operations of Node's \<open>fs\<close> module the code uses are the fields of a
  record; an operation that throws returns \<open>None\<close> (\<open>access\<close>: \<open>False\<close>).
\<close>

datatype EntryKind = IsFile | IsDirectory | IsOther

record Dirent =
  entry_name :: string
  entry_kind :: EntryKind

record Stats =
  stats_size :: int
  stats_isDirectory :: bool

record filesystem =
  readdir :: "path \<Rightarrow> Dirent list option"
  stat :: "path \<Rightarrow> Stats option"
  access :: "path \<Rightarrow> bool"
  readFile :: "path \<Rightarrow> string option"

text \<open>
  The matching library: \<open>minimatch path pattern {dot: true}\<close>, which may throw
  (\<open>None\<close>), and the matcher of regular expressions:
  \<open>regexp_exec source flags S i\<close> is the index at which the match ends that a
  regular expression with this source and these flags finds in \<open>S\<close> when the
  search starts at index \<open>i\<close>, and \<open>None\<close> when it finds no match from there.
\<close>

record library =
  minimatch :: "path \<Rightarrow> string \<Rightarrow> bool option"
  regexp_exec :: "string \<Rightarrow> string \<Rightarrow> string \<Rightarrow> nat \<Rightarrow> nat option"

text \<open>
  A \<open>RegExp\<close> is an object with state. With the flag \<open>g\<close> or \<open>y\<close>, \<open>test\<close>
  starts at \<open>lastIndex\<close> and stores there the end of the match it finds, or 0
  when it finds none; without these flags it starts at 0 and leaves \<open>lastIndex\<close>
  alone. A filter holds a reference to its \<open>RegExp\<close>, and the same object can be
  reached from several filters and from several filter systems, so the objects
  live in a heap that the functions pass along.
\<close>

type_synonym ref = nat

record RegExpObject =
  source :: string
  flags :: string
  lastIndex :: nat

type_synonym heap = "ref \<Rightarrow> RegExpObject"

definition stateful :: "RegExpObject \<Rightarrow> bool" where
  "stateful R = (CHR ''g'' \<in> set (flags R) \<or> CHR ''y'' \<in> set (flags R))"

definition RegExp_test :: "library \<Rightarrow> heap \<Rightarrow> ref \<Rightarrow> string \<Rightarrow> bool \<times> heap" where
  "RegExp_test L H r S =
     (let R = H r;
          i = (if stateful R then lastIndex R else 0);
          found = (if length S < i then None else regexp_exec L (source R) (flags R) S i)
      in case found of
           None \<Rightarrow> (False, if stateful R then H(r := R\<lparr>lastIndex := 0\<rparr>) else H)
         | Some e \<Rightarrow> (True, if stateful R then H(r := R\<lparr>lastIndex := e\<rparr>) else H))"

text \<open>The string of a path, with the separator of POSIX.\<close>

fun pathString :: "path \<Rightarrow> string" where
  "pathString [] = []"
| "pathString [n] = n"
| "pathString (n # m # p) = n @ ''/'' @ pathString (m # p)"

section \<open>The file filter and ignore rule system\<close>

datatype FilterAction = Include | Exclude

datatype Pattern = Glob string | RegExp ref

record FileFilter =
  name :: string
  pattern :: Pattern
  action :: FilterAction
  priority :: int

record IgnoreRule =
  rule_pattern :: string
  description :: string
  rule_priority :: int
  global :: "bool option"

record FileFilterSystem =
  includeFilters :: "FileFilter list"
  excludeFilters :: "FileFilter list"
  ignoreRules :: "IgnoreRule list"
  ignoreCache :: "path \<rightharpoonup> bool"

record FilterConfig =
  filters :: "FileFilter list"
  cfg_ignoreRules :: "IgnoreRule list"

definition mkFilter :: "string \<Rightarrow> string \<Rightarrow> FilterAction \<Rightarrow> int \<Rightarrow> FileFilter" where
  "mkFilter n p a pr = \<lparr>name = n, pattern = Glob p, action = a, priority = pr\<rparr>"

definition mkRule :: "string \<Rightarrow> string \<Rightarrow> int \<Rightarrow> IgnoreRule" where
  "mkRule p d pr = \<lparr>rule_pattern = p, description = d, rule_priority = pr, global = None\<rparr>"

definition defaultIncludeFilters :: "FileFilter list" where
  "defaultIncludeFilters =
    [mkFilter ''Source files'' ''**/*.{js,ts,jsx,tsx,py,go,rs,java,cpp,c,h,hpp}'' Include 10,
     mkFilter ''Config files'' ''**/*.{json,yaml,yml,toml,xml,ini,conf,config}'' Include 9,
     mkFilter ''Documentation'' ''**/*.{md,txt,rst,adoc}'' Include 8,
     mkFilter ''Project files'' ''**/package.json'' Include 10,
     mkFilter ''Project files'' ''**/go.mod'' Include 10,
     mkFilter ''Project files'' ''**/pyproject.toml'' Include 10]"

definition defaultExcludeFilters :: "FileFilter list" where
  "defaultExcludeFilters =
    [mkFilter ''Binary files'' ''**/*.{exe,dll,so,dylib,a,lib}'' Exclude 10,
     mkFilter ''Large media files'' ''**/*.{mp4,avi,mov,wmv,flv,webm,mkv,mp3,wav,flac}'' Exclude 10,
     mkFilter ''Archive files'' ''**/*.{zip,tar,gz,bz2,rar,7z}'' Exclude 9,
     mkFilter ''Font files'' ''**/*.{ttf,otf,woff,woff2,eot}'' Exclude 8,
     mkFilter ''Image files (large)'' ''**/*.{psd,tiff,bmp}'' Exclude 7]"

text \<open>
  The default ignore rules, in the order of the source. The descriptions of the
  source are not ASCII; they are given here in English. No function reads them.
\<close>

definition defaultIgnoreRules :: "IgnoreRule list" where
  "defaultIgnoreRules =
    [mkRule ''.git/**'' ''Git version control files'' 10,
     mkRule ''.gitignore'' ''Git ignore file'' 10,
     mkRule ''.gitmodules'' ''Git submodule configuration'' 9,
     mkRule ''node_modules/**'' ''Node.js dependency directory'' 10,
     mkRule ''npm-debug.log*'' ''npm debug log'' 8,
     mkRule ''yarn-debug.log*'' ''yarn debug log'' 8,
     mkRule ''yarn-error.log*'' ''yarn error log'' 8,
     mkRule ''.pnpm-debug.log*'' ''pnpm debug log'' 8,
     mkRule ''dist/**'' ''build output directory'' 9,
     mkRule ''build/**'' ''build output directory'' 9,
     mkRule ''out/**'' ''build output directory'' 9,
     mkRule ''.next/**'' ''Next.js build directory'' 9,
     mkRule ''.nuxt/**'' ''Nuxt.js build directory'' 9,
     mkRule ''.cache/**'' ''cache directory'' 8,
     mkRule ''__pycache__/**'' ''Python bytecode cache'' 10,
     mkRule ''*.py[cod]'' ''Python bytecode files'' 9,
     mkRule ''.pytest_cache/**'' ''pytest cache'' 8,
     mkRule ''.mypy_cache/**'' ''mypy cache'' 8,
     mkRule ''.tox/**'' ''tox test environment'' 8,
     mkRule ''.venv/**'' ''Python virtual environment'' 9,
     mkRule ''venv/**'' ''Python virtual environment'' 9,
     mkRule ''env/**'' ''Python virtual environment'' 9,
     mkRule ''vendor/**'' ''Go dependency directory'' 9,
     mkRule ''.vscode/**'' ''VS Code configuration'' 7,
     mkRule ''.idea/**'' ''IntelliJ IDEA configuration'' 7,
     mkRule ''*.swp'' ''Vim swap file'' 7,
     mkRule ''*.swo'' ''Vim swap file'' 7,
     mkRule ''.DS_Store'' ''macOS system file'' 7,
     mkRule ''Thumbs.db'' ''Windows thumbnails'' 7,
     mkRule ''.DS_Store/**'' ''macOS system file'' 8,
     mkRule ''.Spotlight-V100/**'' ''macOS Spotlight index'' 6,
     mkRule ''.Trashes/**'' ''macOS trash'' 6,
     mkRule ''*.tmp'' ''temporary file'' 6,
     mkRule ''*.temp'' ''temporary file'' 6,
     mkRule ''*.log'' ''log file'' 5,
     mkRule ''.env.local'' ''local environment variables'' 8,
     mkRule ''.env.*.local'' ''local environment variables'' 8,
     mkRule ''coverage/**'' ''test coverage report'' 8,
     mkRule ''.coverage'' ''Python test coverage file'' 8,
     mkRule ''coverage.xml'' ''test coverage report'' 7,
     mkRule ''package-lock.json'' ''npm lock file'' 5,
     mkRule ''yarn.lock'' ''yarn lock file'' 5,
     mkRule ''pnpm-lock.yaml'' ''pnpm lock file'' 5,
     mkRule ''poetry.lock'' ''Poetry lock file'' 5]"

definition initializeDefaultFilters :: "FileFilterSystem \<Rightarrow> FileFilterSystem" where
  "initializeDefaultFilters s =
     s\<lparr>includeFilters := includeFilters s @ defaultIncludeFilters,
       excludeFilters := excludeFilters s @ defaultExcludeFilters\<rparr>"

definition initializeDefaultIgnoreRules :: "FileFilterSystem \<Rightarrow> FileFilterSystem" where
  "initializeDefaultIgnoreRules s = s\<lparr>ignoreRules := ignoreRules s @ defaultIgnoreRules\<rparr>"

text \<open>
  \<open>Array.prototype.sort\<close> with the comparator \<open>b.priority - a.priority\<close> is a
  stable sort by descending priority; \<open>sort_key\<close> is the stable insertion sort.
\<close>

definition sortFilters :: "FileFilter list \<Rightarrow> FileFilter list" where
  "sortFilters fs = sort_key (\<lambda>f. - priority f) fs"

definition sortRules :: "IgnoreRule list \<Rightarrow> IgnoreRule list" where
  "sortRules rs = sort_key (\<lambda>r. - rule_priority r) rs"

definition clearCache :: "FileFilterSystem \<Rightarrow> FileFilterSystem" where
  "clearCache s = s\<lparr>ignoreCache := Map.empty\<rparr>"

fun pushFilters :: "FileFilterSystem \<Rightarrow> FileFilter list \<Rightarrow> FileFilterSystem" where
  "pushFilters s [] = s"
| "pushFilters s (f # fs) =
     (if action f = Include
      then pushFilters (s\<lparr>includeFilters := includeFilters s @ [f]\<rparr>) fs
      else pushFilters (s\<lparr>excludeFilters := excludeFilters s @ [f]\<rparr>) fs)"

definition addFilters :: "FileFilterSystem \<Rightarrow> FileFilter list \<Rightarrow> FileFilterSystem" where
  "addFilters s fs =
     (let s1 = pushFilters s fs
      in s1\<lparr>includeFilters := sortFilters (includeFilters s1),
            excludeFilters := sortFilters (excludeFilters s1)\<rparr>)"

definition addIgnoreRules :: "FileFilterSystem \<Rightarrow> IgnoreRule list \<Rightarrow> FileFilterSystem" where
  "addIgnoreRules s rules =
     clearCache (s\<lparr>ignoreRules := sortRules (ignoreRules s @ rules)\<rparr>)"

definition emptySystem :: FileFilterSystem where
  "emptySystem = \<lparr>includeFilters = [], excludeFilters = [], ignoreRules = [],
                   ignoreCache = Map.empty\<rparr>"

text \<open>The constructor; both parts of its configuration are optional.\<close>

definition newFileFilterSystem ::
  "FileFilter list option \<Rightarrow> IgnoreRule list option \<Rightarrow> FileFilterSystem" where
  "newFileFilterSystem cfg_filters cfg_rules =
     (let s0 = initializeDefaultIgnoreRules (initializeDefaultFilters emptySystem);
          s1 = (case cfg_filters of None \<Rightarrow> s0 | Some fs \<Rightarrow> addFilters s0 fs)
      in (case cfg_rules of None \<Rightarrow> s1 | Some rs \<Rightarrow> addIgnoreRules s1 rs))"

text \<open>
  \<open>matchPattern\<close>: a \<open>RegExp\<close> is tested, which can change the object; a string
  is handed to \<open>minimatch\<close> inside \<open>try\<close> (\<open>matchGlob\<close>), which changes nothing.
\<close>

definition matchGlob :: "library \<Rightarrow> path \<Rightarrow> string \<Rightarrow> bool" where
  "matchGlob L p g = (case minimatch L p g of Some b \<Rightarrow> b | None \<Rightarrow> False)"

definition matchPattern :: "library \<Rightarrow> heap \<Rightarrow> path \<Rightarrow> Pattern \<Rightarrow> bool \<times> heap" where
  "matchPattern L H p pat =
     (case pat of
        RegExp r \<Rightarrow> RegExp_test L H r (pathString p)
      | Glob g \<Rightarrow> (matchGlob L p g, H))"

text \<open>
  The pattern of an ignore rule is a string, so \<open>shouldIgnore\<close> takes the second
  branch of \<open>matchPattern\<close> for every rule and leaves the heap as it is.
\<close>

fun ruleMatches :: "library \<Rightarrow> path \<Rightarrow> IgnoreRule list \<Rightarrow> bool" where
  "ruleMatches L p [] = False"
| "ruleMatches L p (r # rs) =
     (if matchGlob L p (rule_pattern r) then True else ruleMatches L p rs)"

definition shouldIgnore :: "library \<Rightarrow> FileFilterSystem \<Rightarrow> path \<Rightarrow> bool" where
  "shouldIgnore L s relativePath = ruleMatches L relativePath (ignoreRules s)"

text \<open>
  The loop over a list of filters: it returns at the first filter whose pattern
  matches, so the filters after it are not tested.
\<close>

fun filterMatches :: "library \<Rightarrow> heap \<Rightarrow> path \<Rightarrow> FileFilter list \<Rightarrow> bool \<times> heap" where
  "filterMatches L H p [] = (False, H)"
| "filterMatches L H p (f # fs) =
     (let (matched, H1) = matchPattern L H p (pattern f)
      in if matched then (True, H1) else filterMatches L H1 p fs)"

definition applyFilters :: "library \<Rightarrow> heap \<Rightarrow> FileFilterSystem \<Rightarrow> path \<Rightarrow> bool \<times> heap" where
  "applyFilters L H s relativePath =
     (let (excluded, H1) = filterMatches L H relativePath (excludeFilters s)
      in if excluded then (False, H1)
         else (let (included, H2) = filterMatches L H1 relativePath (includeFilters s)
               in if included then (True, H2) else (True, H2)))"

definition cachePut :: "FileFilterSystem \<Rightarrow> path \<Rightarrow> bool \<Rightarrow> FileFilterSystem" where
  "cachePut s k b = s\<lparr>ignoreCache := (ignoreCache s)(k \<mapsto> b)\<rparr>"

text \<open>
  \<open>shouldInclude\<close> returns its decision, the system with the decision cached, and
  the heap. A decision that is cached for the relative path is returned before
  anything else is looked at; without one, a path whose \<open>fs.stat\<close> throws is not
  included.
\<close>

definition shouldInclude ::
  "library \<Rightarrow> filesystem \<Rightarrow> heap \<Rightarrow> FileFilterSystem \<Rightarrow> path \<Rightarrow> path
     \<Rightarrow> bool \<times> FileFilterSystem \<times> heap" where
  "shouldInclude L F H s filePath rootPath =
     (let relativePath = relative rootPath filePath;
          cacheKey = relativePath
      in case ignoreCache s cacheKey of
           Some b \<Rightarrow> (b, s, H)
         | None \<Rightarrow>
             (case stat F filePath of
                None \<Rightarrow> (False, cachePut s cacheKey False, H)
              | Some fileStats \<Rightarrow>
                  if shouldIgnore L s relativePath then (False, cachePut s cacheKey False, H)
                  else (let (r, H1) = applyFilters L H s relativePath
                        in (r, cachePut s cacheKey r, H1))))"

fun filterFiles ::
  "library \<Rightarrow> filesystem \<Rightarrow> heap \<Rightarrow> FileFilterSystem \<Rightarrow> path list \<Rightarrow> path
     \<Rightarrow> path list \<times> FileFilterSystem \<times> heap" where
  "filterFiles L F H s [] rootPath = ([], s, H)"
| "filterFiles L F H s (filePath # rest) rootPath =
     (let (b, s1, H1) = shouldInclude L F H s filePath rootPath;
          (included, s2, H2) = filterFiles L F H1 s1 rest rootPath
      in (if b then filePath # included else included, s2, H2))"

definition reset :: "FileFilterSystem \<Rightarrow> FileFilterSystem" where
  "reset s = initializeDefaultIgnoreRules (initializeDefaultFilters emptySystem)"

definition exportConfig :: "FileFilterSystem \<Rightarrow> FilterConfig" where
  "exportConfig s =
     \<lparr>filters = includeFilters s @ excludeFilters s, cfg_ignoreRules = ignoreRules s\<rparr>"

definition importConfig :: "FileFilterSystem \<Rightarrow> FilterConfig \<Rightarrow> FileFilterSystem" where
  "importConfig s config =
     addIgnoreRules (addFilters (reset s) (filters config)) (cfg_ignoreRules config)"


subsection \<open>Loading the root ignore file\<close>

text \<open>
  \<open>String.prototype.trim\<close> on the white space of ASCII, and
  \<open>content.split('\n')\<close>.
\<close>

definition isSpace :: "char \<Rightarrow> bool" where
  "isSpace c = (c \<in> set [CHR '' '', CHR 0x09, CHR 0x0A, CHR 0x0B, CHR 0x0C, CHR 0x0D])"

definition trim :: "string \<Rightarrow> string" where
  "trim s = rev (dropWhile isSpace (rev (dropWhile isSpace s)))"

fun split_on :: "char \<Rightarrow> string \<Rightarrow> string list" where
  "split_on c [] = [[]]"
| "split_on c (x # xs) =
     (if x = c then [] # split_on c xs
      else (case split_on c xs of [] \<Rightarrow> [[x]] | l # ls \<Rightarrow> (x # l) # ls))"

definition startsWith :: "string \<Rightarrow> string \<Rightarrow> bool" where
  "startsWith s pre = (take (length pre) s = pre)"

definition endsWith :: "string \<Rightarrow> string \<Rightarrow> bool" where
  "endsWith s suf = (length suf \<le> length s \<and> drop (length s - length suf) s = suf)"

fun gitignoreRules :: "string list \<Rightarrow> IgnoreRule list" where
  "gitignoreRules [] = []"
| "gitignoreRules (line # lines) =
     (let trimmedLine = trim line
      in if trimmedLine = [] \<or> startsWith trimmedLine ''#'' then gitignoreRules lines
         else \<lparr>rule_pattern = trimmedLine,
               description = ''From .gitignore: '' @ trimmedLine,
               rule_priority = 6, global = None\<rparr> # gitignoreRules lines)"

definition loadGitignore :: "filesystem \<Rightarrow> FileFilterSystem \<Rightarrow> path \<Rightarrow> FileFilterSystem" where
  "loadGitignore F s rootPath =
     (let gitignorePath = join rootPath [''.gitignore'']
      in case readFile F gitignorePath of
           None \<Rightarrow> s
         | Some content \<Rightarrow> addIgnoreRules s (gitignoreRules (split_on CHR 0x0A content)))"

subsection \<open>The states a filter system can reach\<close>

text \<open>
  The public operations that change a filter system, and the system and heap
  reached from a state by a sequence of them. \<open>configure\<close> runs additions of
  filters (\<open>Inl\<close>) and of ignore rules (\<open>Inr\<close>) only.
\<close>

datatype FilterOp =
    AddFilters "FileFilter list"
  | AddIgnoreRules "IgnoreRule list"
  | ShouldInclude filesystem path path
  | FilterFiles filesystem "path list" path
  | LoadGitignore filesystem path
  | ClearCache
  | Reset
  | ImportConfig FilterConfig

fun applyOp ::
  "library \<Rightarrow> FileFilterSystem \<times> heap \<Rightarrow> FilterOp \<Rightarrow> FileFilterSystem \<times> heap" where
  "applyOp L (s, H) (AddFilters fs) = (addFilters s fs, H)"
| "applyOp L (s, H) (AddIgnoreRules rs) = (addIgnoreRules s rs, H)"
| "applyOp L (s, H) (ShouldInclude F p rootPath) = snd (shouldInclude L F H s p rootPath)"
| "applyOp L (s, H) (FilterFiles F ps rootPath) = snd (filterFiles L F H s ps rootPath)"
| "applyOp L (s, H) (LoadGitignore F rootPath) = (loadGitignore F s rootPath, H)"
| "applyOp L (s, H) ClearCache = (clearCache s, H)"
| "applyOp L (s, H) Reset = (reset s, H)"
| "applyOp L (s, H) (ImportConfig c) = (importConfig s c, H)"

fun run ::
  "library \<Rightarrow> FileFilterSystem \<times> heap \<Rightarrow> FilterOp list \<Rightarrow> FileFilterSystem \<times> heap" where
  "run L sH [] = sH"
| "run L sH (x # xs) = run L (applyOp L sH x) xs"

fun configure ::
  "FileFilterSystem \<Rightarrow> (FileFilter list + IgnoreRule list) list \<Rightarrow> FileFilterSystem" where
  "configure s [] = s"
| "configure s (Inl fs # rest) = configure (addFilters s fs) rest"
| "configure s (Inr rs # rest) = configure (addIgnoreRules s rs) rest"

text \<open>A cached positive decision is never about an ignored path.\<close>

definition cache_sound :: "library \<Rightarrow> FileFilterSystem \<Rightarrow> bool" where
  "cache_sound L s = (\<forall>k. ignoreCache s k = Some True \<longrightarrow> \<not> shouldIgnore L s k)"

text \<open>
  What the constructor and additions maintain: the default exclude filters and
  ignore rules are present, every filter is in the list of its action, the
  exclude filters are sorted by descending priority unless all of them are
  strings, and nothing is cached.
\<close>

definition isRegExp :: "FileFilter \<Rightarrow> bool" where
  "isRegExp f = (case pattern f of RegExp r \<Rightarrow> True | Glob g \<Rightarrow> False)"

definition globMatches :: "library \<Rightarrow> path \<Rightarrow> FileFilter \<Rightarrow> bool" where
  "globMatches L p f = (case pattern f of Glob g \<Rightarrow> matchGlob L p g | RegExp r \<Rightarrow> False)"

definition well_configured :: "FileFilterSystem \<Rightarrow> bool" where
  "well_configured s =
     (set defaultExcludeFilters \<subseteq> set (excludeFilters s)
      \<and> set defaultIgnoreRules \<subseteq> set (ignoreRules s)
      \<and> (\<forall>f\<in>set (includeFilters s). action f = Include)
      \<and> (\<forall>f\<in>set (excludeFilters s). action f = Exclude)
      \<and> (sorted (map (\<lambda>f. - priority f) (excludeFilters s))
           \<or> filter isRegExp (excludeFilters s) = [])
      \<and> ignoreCache s = Map.empty)"

text \<open>The filters of a system whose pattern is a \<open>RegExp\<close> with the flag \<open>g\<close> or \<open>y\<close>.\<close>

definition statefulFilters :: "heap \<Rightarrow> FileFilterSystem \<Rightarrow> FileFilter list" where
  "statefulFilters H s =
     filter (\<lambda>f. case pattern f of RegExp r \<Rightarrow> stateful (H r) | Glob g \<Rightarrow> False)
       (includeFilters s @ excludeFilters s)"

text \<open>
  Test fixtures: a library in which no pattern matches, a heap whose objects are
  regular expressions without flags, and two disks.
\<close>

definition noMatch :: library where
  "noMatch = \<lparr>minimatch = (\<lambda>p g. Some False), regexp_exec = (\<lambda>src fl S i. None)\<rparr>"

definition plainHeap :: heap where
  "plainHeap = (\<lambda>r. \<lparr>source = ''(?:)'', flags = [], lastIndex = 0\<rparr>)"

definition emptyDisk :: filesystem where
  "emptyDisk = \<lparr>readdir = (\<lambda>p. None), stat = (\<lambda>p. None), access = (\<lambda>p. False),
                 readFile = (\<lambda>p. None)\<rparr>"

definition plainDisk :: filesystem where
  "plainDisk = \<lparr>readdir = (\<lambda>p. None),
                 stat = (\<lambda>p. Some \<lparr>stats_size = 1, stats_isDirectory = False\<rparr>),
                 access = (\<lambda>p. True), readFile = (\<lambda>p. None)\<rparr>"

text \<open>
  A library in which the pattern \<open>*.log\<close> matches the one-component paths that
  end in \<open>.log\<close>, and nothing else matches.
\<close>

definition logMatch :: library where
  "logMatch =
     \<lparr>minimatch = (\<lambda>p g. Some (g = ''*.log'' \<and> length p = 1 \<and> endsWith (last p) ''.log'')),
      regexp_exec = (\<lambda>src fl S i. None)\<rparr>"

text \<open>
  A library whose matcher knows one regular expression, \<open>[.]bak$\<close>: it matches
  the last four characters of a string that ends in \<open>.bak\<close>, when the search
  starts at or before them (exactly at them with the flag \<open>y\<close>). No string
  pattern matches in it; none of the default patterns matches \<open>notes.bak\<close>. The
  heap \<open>bakRegExps fl\<close> holds that expression with the flags \<open>fl\<close>, and
  \<open>bakFilter\<close> is an exclude filter with the object at reference 0 as its
  pattern.
\<close>

definition suffixExec :: "string \<Rightarrow> string \<Rightarrow> string \<Rightarrow> nat \<Rightarrow> nat option" where
  "suffixExec src fl S i =
     (if src = ''[.]bak$'' \<and> endsWith S ''.bak''
         \<and> (if CHR ''y'' \<in> set fl then i + 4 = length S else i + 4 \<le> length S)
      then Some (length S) else None)"

definition suffixMatch :: library where
  "suffixMatch = \<lparr>minimatch = (\<lambda>p g. Some False), regexp_exec = suffixExec\<rparr>"

definition bakRegExps :: "string \<Rightarrow> heap" where
  "bakRegExps fl = (\<lambda>r. \<lparr>source = ''[.]bak$'', flags = fl, lastIndex = 0\<rparr>)"

definition bakFilter :: FileFilter where
  "bakFilter = \<lparr>name = ''Backups'', pattern = RegExp 0, action = Exclude, priority = 20\<rparr>"




section \<open>The detector registry\<close>

datatype ProjectType =
  JAVASCRIPT | TYPESCRIPT | PYTHON | GO | RUST | JAVA | CSHARP | PHP | RUBY | UNKNOWN

text \<open>
  A detector: its name, its type, the patterns it declares and \<open>detect\<close>, which
  may throw (\<open>None\<close>). The deep analysis \<open>analyze\<close> is not modelled.
\<close>

record ModuleDetector =
  detector_name :: string
  detector_type :: ProjectType
  patterns :: "string list"
  detect :: "filesystem \<Rightarrow> path \<Rightarrow> bool option"

definition fileExists :: "filesystem \<Rightarrow> path \<Rightarrow> bool" where
  "fileExists F filePath = access F filePath"

fun anyIndicator :: "filesystem \<Rightarrow> path \<Rightarrow> path list \<Rightarrow> bool" where
  "anyIndicator F p [] = False"
| "anyIndicator F p (indicator # rest) =
     (if fileExists F (join p indicator) then True else anyIndicator F p rest)"

fun anyFileEndsWith :: "string \<Rightarrow> Dirent list \<Rightarrow> bool" where
  "anyFileEndsWith ext [] = False"
| "anyFileEndsWith ext (entry # entries) =
     (if entry_kind entry = IsFile \<and> endsWith (entry_name entry) ext then True
      else anyFileEndsWith ext entries)"

definition hasPythonFiles :: "filesystem \<Rightarrow> path \<Rightarrow> bool" where
  "hasPythonFiles F p =
     (case readdir F p of None \<Rightarrow> False | Some entries \<Rightarrow> anyFileEndsWith ''.py'' entries)"

definition hasGoFiles :: "filesystem \<Rightarrow> path \<Rightarrow> bool" where
  "hasGoFiles F p =
     (case readdir F p of None \<Rightarrow> False | Some entries \<Rightarrow> anyFileEndsWith ''.go'' entries)"

definition JavaScriptProjectDetector :: ModuleDetector where
  "JavaScriptProjectDetector =
     \<lparr>detector_name = ''JavaScript/TypeScript'', detector_type = JAVASCRIPT,
      patterns = [''package.json'', ''package-lock.json'', ''yarn.lock'', ''pnpm-lock.yaml'',
                  ''tsconfig.json'', ''jsconfig.json'', ''tsconfig.base.json''],
      detect = (\<lambda>F p. Some (fileExists F (join p [''package.json''])))\<rparr>"

definition PythonProjectDetector :: ModuleDetector where
  "PythonProjectDetector =
     \<lparr>detector_name = ''Python'', detector_type = PYTHON,
      patterns = [''pyproject.toml'', ''setup.py'', ''requirements.txt'', ''requirements-dev.txt'',
                  ''requirements.in'', ''Pipfile'', ''Pipfile.lock'', ''poetry.lock'', ''setup.cfg'',
                  ''tox.ini'', ''pytest.ini'', ''.python-version''],
      detect = (\<lambda>F p.
        Some (if anyIndicator F p [[''pyproject.toml''], [''setup.py''], [''requirements.txt''],
                                   [''Pipfile''], [''setup.cfg'']]
              then True else hasPythonFiles F p))\<rparr>"

definition GoProjectDetector :: ModuleDetector where
  "GoProjectDetector =
     \<lparr>detector_name = ''Go'', detector_type = GO,
      patterns = [''go.mod'', ''go.sum'', ''main.go'', ''cmd/**/*.go'', ''pkg/**/*.go'',
                  ''internal/**/*.go'', ''api/**/*.go'', ''vendor/**/*''],
      detect = (\<lambda>F p.
        Some (if anyIndicator F p [[''go.mod''], [''main.go''], [''cmd'', ''main.go'']]
              then True else hasGoFiles F p))\<rparr>"

text \<open>
  The registry is a JavaScript \<open>Map\<close>: its entries are iterated in the order in which
  their keys were first set, and setting a present key replaces its value in place.
\<close>

type_synonym DetectorManager = "(ProjectType \<times> ModuleDetector) list"

fun mapSet :: "'k \<Rightarrow> 'v \<Rightarrow> ('k \<times> 'v) list \<Rightarrow> ('k \<times> 'v) list" where
  "mapSet k v [] = [(k, v)]"
| "mapSet k v ((k', v') # m) = (if k = k' then (k, v) # m else (k', v') # mapSet k v m)"

definition registerDetector :: "DetectorManager \<Rightarrow> ProjectType \<Rightarrow> ModuleDetector \<Rightarrow> DetectorManager" where
  "registerDetector this t detector = mapSet t detector this"

definition getDetector :: "DetectorManager \<Rightarrow> ProjectType \<Rightarrow> ModuleDetector option" where
  "getDetector this t = map_of this t"

definition initializeDetectors :: DetectorManager where
  "initializeDetectors =
     mapSet GO GoProjectDetector
       (mapSet PYTHON PythonProjectDetector
          (mapSet TYPESCRIPT JavaScriptProjectDetector
             (mapSet JAVASCRIPT JavaScriptProjectDetector [])))"

text \<open>
  \<open>checkPatternMatch\<close> is an \<open>async\<close> method: a call returns a promise of the
  answer. \<open>calculateConfidence\<close> passes it to \<open>Array.prototype.filter\<close> without
  awaiting it, and \<open>filter\<close> keeps an element when the callback's value is truthy;
  a promise is an object, and every object is truthy.
\<close>

datatype 'a Promise = Promise 'a

definition truthy :: "'a Promise \<Rightarrow> bool" where
  "truthy pr = True"

definition checkPatternMatch :: "filesystem \<Rightarrow> path \<Rightarrow> string \<Rightarrow> bool Promise" where
  "checkPatternMatch F p pat = Promise (fileExists F (join p (split_on CHR ''/'' pat)))"

definition calculateConfidence ::
  "filesystem \<Rightarrow> path \<Rightarrow> ProjectType \<Rightarrow> ModuleDetector \<Rightarrow> int" where
  "calculateConfidence F p t detector =
     (let confidence = 50;
          patternMatches =
            int (length (filter (\<lambda>pat. truthy (checkPatternMatch F p pat)) (patterns detector)));
          confidence = confidence + patternMatches * 10;
          confidence =
            (case t of
               TYPESCRIPT \<Rightarrow>
                 if ''tsconfig.json'' \<in> set (patterns detector) then confidence + 20 else confidence
             | PYTHON \<Rightarrow>
                 if ''pyproject.toml'' \<in> set (patterns detector) then confidence + 15 else confidence
             | GO \<Rightarrow>
                 if ''go.mod'' \<in> set (patterns detector) then confidence + 25 else confidence
             | _ \<Rightarrow> confidence)
      in min 100 confidence)"

text \<open>
  The confidence as the specification words it: 10 for each declared pattern that
  is present on disk, and the bonus of the type when its file is present on disk.
\<close>

definition claimedConfidence ::
  "filesystem \<Rightarrow> path \<Rightarrow> ProjectType \<Rightarrow> ModuleDetector \<Rightarrow> int" where
  "claimedConfidence F p t detector =
     (let present =
            int (length (filter (\<lambda>pat. fileExists F (join p (split_on CHR ''/'' pat)))
                           (patterns detector)));
          bonus =
            (case t of
               GO \<Rightarrow> if fileExists F (join p [''go.mod'']) then 25 else 0
             | TYPESCRIPT \<Rightarrow> if fileExists F (join p [''tsconfig.json'']) then 20 else 0
             | PYTHON \<Rightarrow> if fileExists F (join p [''pyproject.toml'']) then 15 else 0
             | _ \<Rightarrow> 0)
      in min 100 (50 + 10 * present + bonus))"

fun detectionResults ::
  "filesystem \<Rightarrow> path \<Rightarrow> DetectorManager \<Rightarrow> (ProjectType \<times> int) list" where
  "detectionResults F p [] = []"
| "detectionResults F p ((t, detector) # rest) =
     (case detect detector F p of
        Some True \<Rightarrow> (t, calculateConfidence F p t detector) # detectionResults F p rest
      | Some False \<Rightarrow> detectionResults F p rest
      | None \<Rightarrow> detectionResults F p rest)"

definition sortResults :: "(ProjectType \<times> int) list \<Rightarrow> (ProjectType \<times> int) list" where
  "sortResults rs = sort_key (\<lambda>r. - snd r) rs"

definition detectProjectType :: "DetectorManager \<Rightarrow> filesystem \<Rightarrow> path \<Rightarrow> ProjectType" where
  "detectProjectType this F p =
     (let results = detectionResults F p this
      in if length results = 0 then UNKNOWN
         else (case sortResults results of r # _ \<Rightarrow> fst r | [] \<Rightarrow> UNKNOWN))"


subsection \<open>Module discovery\<close>

text \<open>
  \<open>scanDirectory\<close> is the function nested in \<open>findModules\<close>. Its value here is the
  trace of what it does: \<open>Read d\<close> for each directory it lists and \<open>Recorded d\<close>
  for each directory it pushes on \<open>modules\<close>. \<open>isRoot p\<close> is the outcome of
  evaluating \<open>await this.isModuleRoot(p)\<close> in its body: \<open>Some b\<close> when the call
  returns \<open>b\<close>, \<open>None\<close> when the evaluation throws; the \<open>try\<close> around the loop
  catches the exception, which ends the loop over the entries of that directory.
\<close>

datatype Visit = Read path | Recorded path

fun forEntries ::
  "(path \<Rightarrow> bool option) \<Rightarrow> (path \<Rightarrow> Visit list) \<Rightarrow> path \<Rightarrow> Dirent list \<Rightarrow> Visit list" where
  "forEntries isRoot recurse currentPath [] = []"
| "forEntries isRoot recurse currentPath (entry # entries) =
     (if entry_kind entry = IsDirectory \<and> \<not> startsWith (entry_name entry) ''.''
      then (let fullPath = join currentPath [entry_name entry]
            in case isRoot fullPath of
                 None \<Rightarrow> []
               | Some True \<Rightarrow> Recorded fullPath # forEntries isRoot recurse currentPath entries
               | Some False \<Rightarrow> recurse fullPath @ forEntries isRoot recurse currentPath entries)
      else forEntries isRoot recurse currentPath entries)"

function scanDirectory ::
  "(path \<Rightarrow> bool option) \<Rightarrow> filesystem \<Rightarrow> int \<Rightarrow> path \<Rightarrow> int \<Rightarrow> Visit list" where
  "scanDirectory isRoot F maxDepth currentPath depth =
     (if depth > maxDepth then []
      else Read currentPath #
        (case readdir F currentPath of
           None \<Rightarrow> []
         | Some entries \<Rightarrow>
             forEntries isRoot (\<lambda>fullPath. scanDirectory isRoot F maxDepth fullPath (depth + 1))
               currentPath entries))"
  by pat_completeness auto
termination
  by (relation "measure (\<lambda>(isRoot, F, maxDepth, currentPath, depth). nat (maxDepth + 1 - depth))")
     auto

declare scanDirectory.simps [simp del]

fun recordedIn :: "Visit list \<Rightarrow> path list" where
  "recordedIn [] = []"
| "recordedIn (Recorded p # vs) = p # recordedIn vs"
| "recordedIn (Read p # vs) = recordedIn vs"

fun readIn :: "Visit list \<Rightarrow> path list" where
  "readIn [] = []"
| "readIn (Read p # vs) = p # readIn vs"
| "readIn (Recorded p # vs) = readIn vs"

definition findModulesWith ::
  "(path \<Rightarrow> bool option) \<Rightarrow> filesystem \<Rightarrow> path \<Rightarrow> int \<Rightarrow> path list" where
  "findModulesWith isRoot F rootPath maxDepth = recordedIn (scanDirectory isRoot F maxDepth rootPath 0)"

definition directoriesRead ::
  "(path \<Rightarrow> bool option) \<Rightarrow> filesystem \<Rightarrow> path \<Rightarrow> int \<Rightarrow> path list" where
  "directoriesRead isRoot F rootPath maxDepth = readIn (scanDirectory isRoot F maxDepth rootPath 0)"

text \<open>
  \<open>findModules\<close> calls \<open>scanDirectory(rootPath, 0)\<close> as a plain function, and so
  does \<open>scanDirectory\<close> itself: \<open>this\<close> is undefined in the body (a class body is
  strict code), and evaluating \<open>this.isModuleRoot\<close> throws a \<open>TypeError\<close>.
\<close>

definition findModules :: "DetectorManager \<Rightarrow> filesystem \<Rightarrow> path \<Rightarrow> int \<Rightarrow> path list" where
  "findModules this F rootPath maxDepth = findModulesWith (\<lambda>p. None) F rootPath maxDepth"

text \<open>The chain of directories from \<open>cur\<close> down along \<open>q\<close>: none hidden, each tested and found not to be a module root.\<close>

fun descended :: "(path \<Rightarrow> bool option) \<Rightarrow> path \<Rightarrow> path \<Rightarrow> bool" where
  "descended isRoot cur [] = True"
| "descended isRoot cur (n # q) =
     (\<not> startsWith n ''.'' \<and> isRoot (cur @ [n]) = Some False \<and> descended isRoot (cur @ [n]) q)"

text \<open>
  What holds of every step of the trace of \<open>scanDirectory\<close> started at \<open>cur\<close> with
  depth \<open>depth\<close>: a directory that is read is reached by a chain of descents within
  the depth bound, and a recorded directory is a non-hidden entry, tested to be a
  module root, at the end of such a chain.
\<close>

definition goodVisit :: "(path \<Rightarrow> bool option) \<Rightarrow> int \<Rightarrow> path \<Rightarrow> int \<Rightarrow> Visit \<Rightarrow> bool" where
  "goodVisit isRoot maxDepth cur depth v =
     ((\<exists>q. v = Read (cur @ q) \<and> descended isRoot cur q \<and> depth + int (length q) \<le> maxDepth)
      \<or> (\<exists>q n. v = Recorded (cur @ q @ [n]) \<and> descended isRoot cur q \<and> \<not> startsWith n ''.''
             \<and> isRoot (cur @ q @ [n]) = Some True \<and> depth + int (length q) \<le> maxDepth))"

text \<open>
  A test fixture: a repository with a hidden directory, and a package \<open>a\<close> that
  holds a nested package.
\<close>

definition dirEntry :: "string \<Rightarrow> Dirent" where
  "dirEntry n = \<lparr>entry_name = n, entry_kind = IsDirectory\<rparr>"

definition fileEntry :: "string \<Rightarrow> Dirent" where
  "fileEntry n = \<lparr>entry_name = n, entry_kind = IsFile\<rparr>"

definition monoListing :: "path \<Rightarrow> Dirent list option" where
  "monoListing p =
     (if p = [''repo''] then Some [dirEntry ''.git'', dirEntry ''packages'', fileEntry ''README.md'']
      else if p = [''repo'', ''packages''] then Some [dirEntry ''a'', dirEntry ''tools'']
      else if p = [''repo'', ''packages'', ''a''] then Some [dirEntry ''nested'']
      else if p = [''repo'', ''packages'', ''tools''] then Some []
      else None)"

definition monoDisk :: filesystem where
  "monoDisk = \<lparr>readdir = monoListing, stat = (\<lambda>p. None), access = (\<lambda>p. False),
                readFile = (\<lambda>p. None)\<rparr>"

definition monoRoots :: "path \<Rightarrow> bool option" where
  "monoRoots p =
     Some (p = [''repo'', ''packages'', ''a''] \<or> p = [''repo'', ''packages'', ''a'', ''nested''])"

text \<open>A filter system with a custom include filter for log files.\<close>

definition logSystem :: FileFilterSystem where
  "logSystem =
     fst (run logMatch (newFileFilterSystem None None, plainHeap)
       [AddFilters [\<lparr>name = ''Logs'', pattern = Glob ''*.log'', action = Include, priority = 100\<rparr>]])"

text \<open>The first entry of the highest confidence in a list of detection results.\<close>

fun firstBest :: "(ProjectType \<times> int) list \<Rightarrow> ProjectType \<times> int" where
  "firstBest [] = (UNKNOWN, 0)"
| "firstBest [x] = x"
| "firstBest (x # y # ys) = (let b = firstBest (y # ys) in if snd b \<le> snd x then x else b)"

text \<open>Two disks: one with only \<open>main.go\<close> in the project, one on which every path exists.\<close>

definition goOnlyDisk :: filesystem where
  "goOnlyDisk =
     \<lparr>readdir = (\<lambda>p. if p = [''proj''] then Some [fileEntry ''main.go''] else None),
      stat = (\<lambda>p. None),
      access = (\<lambda>p. p = [''proj''] \<or> p = [''proj'', ''main.go'']),
      readFile = (\<lambda>p. None)\<rparr>"

section \<open>The scan orchestrator\<close>

datatype ScanPhase = QUICK | MODULE | DEEP

datatype PhaseStatus = Pending | Running | Completed | Failed | Skipped

text \<open>
  The texts of errors and recommendations. The source builds them from literals,
  most of them not ASCII and given here in English, and from interpolated values:
  a number, a coverage that is printed with \<open>toFixed(1)\<close>, a list of paths, or
  the message of a caught error after a prefix.
\<close>

datatype Message =
    Literal string
  | WithNumber string int
  | WithCoverage string rat
  | WithPaths string "path list"
  | Prefixed string Message

record ScanError =
  message :: Message
  code :: string
  error_path :: "path option"
  error_phase :: "ScanPhase option"

text \<open>What a \<open>throw\<close> carries: a \<open>ScanError\<close> or another \<open>Error\<close> with its message.\<close>

datatype Error = ScanErr ScanError | OtherError Message

fun errorMessage :: "Error \<Rightarrow> Message" where
  "errorMessage (ScanErr e) = message e"
| "errorMessage (OtherError m) = m"

record ModuleMetadata =
  md_description :: string
  author :: string
  license :: string
  repository :: string
  md_keywords :: "string list"
  scripts :: "(string \<times> string) list"
  engines :: "(string \<times> string) list"

record Dependency =
  dep_name :: string
  dep_version :: string
  dep_type :: string

record ModuleInfo =
  mod_path :: path
  mod_name :: string
  mod_type :: ProjectType
  entryPoints :: "path list"
  dependencies :: "Dependency list"
  devDependencies :: "Dependency list"
  keyFiles :: "path list"
  testFiles :: "path list"
  configFiles :: "path list"
  docs :: "path list"
  metadata :: ModuleMetadata

record ScanStatistics =
  totalFiles :: int
  scannedFiles :: int
  ignoredFiles :: int
  modulesFound :: int
  scanDuration :: int
  fileSize :: int
  linesOfCode :: int
  coverage :: rat

record ScanPhaseRecord =
  phase :: ScanPhase
  startTime :: int
  endTime :: int
  duration :: int
  filesProcessed :: int
  status :: PhaseStatus
  error :: "Message option"

datatype RecommendationType = scan_deeper | add_config | fix_structure | add_docs | optimize

datatype Priority = low | medium | high | critical

record Recommendation =
  rec_type :: RecommendationType
  rec_priority :: Priority
  title :: Message
  rec_description :: Message
  targetPath :: "path list option"
  rec_action :: "Message option"

record ProjectScanResult =
  scan_rootPath :: path
  projectType :: ProjectType
  modules :: "ModuleInfo list"
  globalFiles :: "path list"
  result_ignoredFiles :: "path list"
  scanStatistics :: ScanStatistics
  scanPhases :: "ScanPhaseRecord list"
  recommendations :: "Recommendation list"

record PerformanceLimits =
  maxFiles :: int
  maxFileSize :: int
  limit_maxDepth :: int
  timeout :: int
  memoryLimit :: int

record ScanConfig =
  fileFilters :: "FileFilter list"
  config_ignoreRules :: "IgnoreRule list"
  performanceLimits :: "PerformanceLimits option"

text \<open>
  The state of a scanner: the fields of \<open>BaseScanner\<close>, whether a listener of the
  \<open>error\<close> event is attached to it, and the two fields of \<open>QuickScanner\<close>.
\<close>

record Scanner =
  config :: ScanConfig
  scanResult :: ProjectScanResult
  currentPhase :: "ScanPhase option"
  errorListener :: bool
  detectorManager :: DetectorManager
  fileFilter :: FileFilterSystem

text \<open>
  A JavaScript number is an IEEE 754 double. The counts of the statistics are
  integers far below \<open>2 ^ 53\<close>, which doubles hold exactly; a quotient or a
  product is the exact value rounded to the nearest double, ties to the even
  significand. \<open>roundToDouble\<close> is that rounding for the numbers whose magnitude
  is in the normal range of doubles, where a double is an integer \<open>m\<close> below
  \<open>2 ^ 53\<close> times a power of 2; quotients and percentages of counts are in it.
\<close>

fun bits :: "nat \<Rightarrow> nat" where
  "bits n = (if n = 0 then 0 else Suc (bits (n div 2)))"

declare bits.simps [simp del]

definition pow2 :: "int \<Rightarrow> rat" where
  "pow2 e = (if 0 \<le> e then 2 ^ nat e else 1 / 2 ^ nat (- e))"

text \<open>The integer \<open>e\<close> with \<open>2 ^ e \<le> x < 2 ^ (e + 1)\<close>, for a positive \<open>x\<close>.\<close>

definition floorLog2 :: "rat \<Rightarrow> int" where
  "floorLog2 x =
     (if 1 \<le> x then int (bits (nat \<lfloor>x\<rfloor>)) - 1
      else (let y = 1 / x; k = int (bits (nat \<lfloor>y\<rfloor>)) - 1
            in if y = pow2 k then - k else - k - 1))"

definition roundTiesToEven :: "rat \<Rightarrow> int" where
  "roundTiesToEven x =
     (let n = \<lfloor>x\<rfloor>; d = x - of_int n
      in if d < 1 / 2 then n else if 1 / 2 < d then n + 1 else if even n then n else n + 1)"

definition roundToDouble :: "rat \<Rightarrow> rat" where
  "roundToDouble x =
     (if x = 0 then 0
      else (let e = floorLog2 \<bar>x\<bar> - 52;
                m = roundTiesToEven (\<bar>x\<bar> / pow2 e)
            in sgn x * of_int m * pow2 e))"

text \<open>The expression \<open>(scannedFiles / totalFiles) * 100\<close>.\<close>

definition percentage :: "int \<Rightarrow> int \<Rightarrow> rat" where
  "percentage scanned all = roundToDouble (roundToDouble (of_int scanned / of_int all) * 100)"

definition initializeScanResult :: ProjectScanResult where
  "initializeScanResult =
     \<lparr>scan_rootPath = [], projectType = UNKNOWN, modules = [], globalFiles = [],
      result_ignoredFiles = [],
      scanStatistics = \<lparr>totalFiles = 0, scannedFiles = 0, ignoredFiles = 0, modulesFound = 0,
                        scanDuration = 0, fileSize = 0, linesOfCode = 0, coverage = 0\<rparr>,
      scanPhases = [], recommendations = []\<rparr>"

text \<open>
  Events reach listeners outside the scanner and do not change its state, with one
  exception: Node's \<open>EventEmitter\<close> throws when an \<open>error\<close> event is emitted and
  no listener is attached for it.
\<close>

definition emitErrorEvent :: "Scanner \<Rightarrow> Error option" where
  "emitErrorEvent this =
     (if errorListener this then None else Some (OtherError (Literal ''Unhandled error.'')))"


type_synonym PhaseFn =
  "path \<Rightarrow> ScanPhaseRecord \<Rightarrow> Scanner \<Rightarrow> heap \<Rightarrow> Error option \<times> ScanPhaseRecord \<times> Scanner \<times> heap"

text \<open>
  The three abstract methods of \<open>BaseScanner\<close>. A phase works on the phase record,
  on the scanner and on the heap; it may throw (\<open>Some\<close>) after it has changed
  them.
\<close>

record PhaseImpl =
  impl_quick :: PhaseFn
  impl_module :: PhaseFn
  impl_deep :: PhaseFn

definition dispatch :: "PhaseImpl \<Rightarrow> ScanPhase \<Rightarrow> PhaseFn" where
  "dispatch impl ph =
     (case ph of QUICK \<Rightarrow> impl_quick impl | MODULE \<Rightarrow> impl_module impl | DEEP \<Rightarrow> impl_deep impl)"

text \<open>
  \<open>scanPhase\<close>, with the clock read at the start (\<open>t0\<close>) and at the end (\<open>t1\<close>) of
  the phase. Its value holds the outcome (the thrown error or the returned
  record), the final state of the local phase record, the scanner and the heap.
  \<open>newRecord\<close> is the record as \<open>scanPhase\<close> creates it.
\<close>

definition newRecord :: "ScanPhase \<Rightarrow> int \<Rightarrow> ScanPhaseRecord" where
  "newRecord ph t0 = \<lparr>phase = ph, startTime = t0, endTime = t0, duration = 0,
                      filesProcessed = 0, status = Running, error = None\<rparr>"

definition scanPhase ::
  "PhaseImpl \<Rightarrow> int \<times> int \<Rightarrow> ScanPhase \<Rightarrow> path \<Rightarrow> Scanner \<Rightarrow> heap
     \<Rightarrow> (Error + ScanPhaseRecord) \<times> ScanPhaseRecord \<times> Scanner \<times> heap" where
  "scanPhase impl readings ph p this H =
     (let t0 = fst readings; t1 = snd readings;
          this1 = this\<lparr>currentPhase := Some ph\<rparr>;
          record0 = newRecord ph t0;
          (thrown, record1, this2, H2) = dispatch impl ph p record0 this1 H
      in case thrown of
           None \<Rightarrow>
             (let record2 = record1\<lparr>status := Completed, endTime := t1, duration := t1 - t0\<rparr>
              in (Inr record2, record2, this2, H2))
         | Some e \<Rightarrow>
             (let record2 = record1\<lparr>status := Failed, error := Some (errorMessage e),
                                    endTime := t1, duration := t1 - t0\<rparr>
              in case emitErrorEvent this2 of
                   Some unhandled \<Rightarrow> (Inl unhandled, record2, this2, H2)
                 | None \<Rightarrow> (Inl e, record2, this2, H2)))"

text \<open>\<open>handleError\<close> always throws; its value is what it throws.\<close>

definition handleError :: "Scanner \<Rightarrow> Error \<Rightarrow> ScanPhase option \<Rightarrow> Error" where
  "handleError this e ph =
     (case emitErrorEvent this of
        Some unhandled \<Rightarrow> unhandled
      | None \<Rightarrow>
          (case e of
             ScanErr se \<Rightarrow> ScanErr se
           | OtherError m \<Rightarrow>
               ScanErr \<lparr>message = Prefixed ''Scan failed: '' m, code = ''SCAN_ERROR'',
                        error_path = Some (scan_rootPath (scanResult this)),
                        error_phase = ph\<rparr>))"

definition deepScanRecommendation :: Recommendation where
  "deepScanRecommendation =
     \<lparr>rec_type = scan_deeper, rec_priority = medium,
      title = Literal ''A deep scan is recommended'',
      rec_description = Literal ''Scan coverage is low; enable the deep scan'',
      targetPath = None,
      rec_action = Some (Literal ''Run a full scan with the deep phase'')\<rparr>"

definition addDocsRecommendation :: "ModuleInfo list \<Rightarrow> Recommendation" where
  "addDocsRecommendation modulesWithoutDocs =
     \<lparr>rec_type = add_docs, rec_priority = high,
      title = Literal ''Add documentation to the modules'',
      rec_description =
        WithNumber ''Modules without documentation: '' (int (length modulesWithoutDocs)),
      targetPath = Some (map mod_path modulesWithoutDocs),
      rec_action = None\<rparr>"

definition generateRecommendations :: "Scanner \<Rightarrow> Scanner" where
  "generateRecommendations this =
     (let r = scanResult this;
          recs1 = (if coverage (scanStatistics r) < 50 then [deepScanRecommendation] else []);
          modulesWithoutDocs = filter (\<lambda>m. length (docs m) = 0) (modules r);
          recs2 =
            (if length modulesWithoutDocs > 0
             then recs1 @ [addDocsRecommendation modulesWithoutDocs]
             else recs1)
      in this\<lparr>scanResult := r\<lparr>recommendations := recs2\<rparr>\<rparr>)"

definition finalizeScan :: "Scanner \<Rightarrow> Scanner" where
  "finalizeScan this =
     (let r = scanResult this;
          totalTime = foldl (\<lambda>acc ph. acc + duration ph) 0 (scanPhases r);
          stats1 = (scanStatistics r)\<lparr>scanDuration := totalTime\<rparr>;
          stats2 =
            (if totalFiles stats1 > 0
             then stats1\<lparr>coverage := percentage (scannedFiles stats1) (totalFiles stats1)\<rparr>
             else stats1)
      in generateRecommendations (this\<lparr>scanResult := r\<lparr>scanStatistics := stats2\<rparr>\<rparr>))"

text \<open>
  The loop of \<open>scan\<close> over the requested phases; \<open>clock i\<close> is the pair of clock
  readings of the \<open>i\<close>-th phase of the loop. The loop ends with the error that
  \<open>handleError\<close> throws, if a phase throws.
\<close>

fun runPhases ::
  "PhaseImpl \<Rightarrow> (nat \<Rightarrow> int \<times> int) \<Rightarrow> nat \<Rightarrow> path \<Rightarrow> Scanner \<Rightarrow> heap \<Rightarrow> ScanPhase list
     \<Rightarrow> Error option \<times> Scanner \<times> heap" where
  "runPhases impl clock i p this H [] = (None, this, H)"
| "runPhases impl clock i p this H (ph # rest) =
     (let this1 = this\<lparr>currentPhase := Some ph\<rparr>
      in case scanPhase impl (clock i) ph p this1 H of
           (Inr phaseRecord, _, this2, H2) \<Rightarrow>
             runPhases impl clock (Suc i) p
               (this2\<lparr>scanResult :=
                  (scanResult this2)\<lparr>scanPhases := scanPhases (scanResult this2) @ [phaseRecord]\<rparr>\<rparr>)
               H2 rest
         | (Inl e, _, this2, H2) \<Rightarrow> (Some (handleError this2 e (Some ph)), this2, H2))"

text \<open>The phases of a scan: the ones the options name, or all three.\<close>

definition requested :: "ScanPhase list option \<Rightarrow> ScanPhase list" where
  "requested optionsPhases =
     (case optionsPhases of None \<Rightarrow> [QUICK, MODULE, DEEP] | Some ps \<Rightarrow> ps)"

definition scan ::
  "PhaseImpl \<Rightarrow> (nat \<Rightarrow> int \<times> int) \<Rightarrow> path \<Rightarrow> ScanPhase list option \<Rightarrow> Scanner \<Rightarrow> heap
     \<Rightarrow> (Error + ProjectScanResult) \<times> Scanner \<times> heap" where
  "scan impl clock p optionsPhases this H =
     (let this1 = this\<lparr>scanResult := (scanResult this)\<lparr>scan_rootPath := p\<rparr>\<rparr>;
          phases = requested optionsPhases;
          (thrown, this2, H2) = runPhases impl clock 0 p this1 H phases
      in case thrown of
           Some e \<Rightarrow> (Inl e, this2, H2)
         | None \<Rightarrow> (let this3 = finalizeScan this2 in (Inr (scanResult this3), this3, H2)))"

definition shouldStopScan :: "Scanner \<Rightarrow> Error + bool" where
  "shouldStopScan this =
     (case performanceLimits (config this) of
        None \<Rightarrow> Inr False
      | Some limits \<Rightarrow>
          if totalFiles (scanStatistics (scanResult this)) \<ge> maxFiles limits
          then Inl (ScanErr \<lparr>message = WithNumber ''Maximum file limit reached: '' (maxFiles limits),
                             code = ''FILE_LIMIT_EXCEEDED'',
                             error_path = Some (scan_rootPath (scanResult this)),
                             error_phase = currentPhase this\<rparr>)
          else if fileSize (scanStatistics (scanResult this)) \<ge> memoryLimit limits
          then Inl (ScanErr \<lparr>message = WithNumber ''Memory limit reached (bytes): '' (memoryLimit limits),
                             code = ''MEMORY_LIMIT_EXCEEDED'',
                             error_path = Some (scan_rootPath (scanResult this)),
                             error_phase = currentPhase this\<rparr>)
          else Inr False)"

section \<open>The quick scanner\<close>

definition DEFAULT_LIMITS :: PerformanceLimits where
  "DEFAULT_LIMITS =
     \<lparr>maxFiles = 100000, maxFileSize = 10 * 1024 * 1024, limit_maxDepth = 10,
      timeout = 300000, memoryLimit = 512 * 1024 * 1024\<rparr>"

definition createDefault :: ScanConfig where
  "createDefault =
     (let fileFilterSystem = newFileFilterSystem None None
      in \<lparr>fileFilters = includeFilters fileFilterSystem @ excludeFilters fileFilterSystem,
          config_ignoreRules = ignoreRules fileFilterSystem,
          performanceLimits = Some DEFAULT_LIMITS\<rparr>)"

text \<open>
  The constructor. It hands the scan configuration to the filter system, which
  reads the fields \<open>filters\<close> and \<open>ignoreRules\<close> of its argument: a scan
  configuration has the second only. A new scanner has no listener.
\<close>

definition newQuickScanner :: "ScanConfig option \<Rightarrow> Scanner" where
  "newQuickScanner cfg =
     (let scanConfig = (case cfg of None \<Rightarrow> createDefault | Some c \<Rightarrow> c)
      in \<lparr>config = scanConfig, scanResult = initializeScanResult, currentPhase = None,
          errorListener = False, detectorManager = initializeDetectors,
          fileFilter = newFileFilterSystem None (Some (config_ignoreRules scanConfig))\<rparr>)"

subsection \<open>Enumeration\<close>

text \<open>
  \<open>traverseDirectory\<close> is nested in \<open>quickTraverseDirectory\<close>, which calls it with
  \<open>traverseDirectory.call(this, rootPath, 0)\<close>; the recursive call is the plain
  \<open>traverseDirectory(fullPath, depth + 1)\<close>, in which \<open>this\<close> is undefined. The
  value of \<open>this\<close> is the first argument here. The variables the closure shares
  (\<open>allFiles\<close>, \<open>filesProcessed\<close>, the phase record) are the traversal state,
  which survives an exception. Progress events are not modelled.
\<close>

record Traversal =
  trav_files :: "path list"
  trav_count :: int
  trav_record :: ScanPhaseRecord

definition callShouldStopScan :: "Scanner option \<Rightarrow> Error + bool" where
  "callShouldStopScan this =
     (case this of
        None \<Rightarrow> Inl (OtherError (Literal ''TypeError: Cannot read properties of undefined''))
      | Some scanner \<Rightarrow> shouldStopScan scanner)"

text \<open>
  The loop over the entries runs inside \<open>try\<close>: whatever is thrown in it, by
  \<open>shouldStopScan\<close> or by the recursive call, ends the loop and is swallowed.
\<close>

fun traverseEntries ::
  "Scanner option \<Rightarrow> (path \<Rightarrow> Traversal \<Rightarrow> Error option \<times> Traversal) \<Rightarrow> path \<Rightarrow> path
     \<Rightarrow> Dirent list \<Rightarrow> Traversal \<Rightarrow> Traversal" where
  "traverseEntries this recurse rootPath currentPath [] t = t"
| "traverseEntries this recurse rootPath currentPath (entry # entries) t =
     (case callShouldStopScan this of
        Inl e \<Rightarrow> t
      | Inr True \<Rightarrow> t
      | Inr False \<Rightarrow>
          if startsWith (entry_name entry) ''.'' \<and> currentPath \<noteq> rootPath
          then traverseEntries this recurse rootPath currentPath entries t
          else (let fullPath = join currentPath [entry_name entry]
                in if entry_kind entry = IsDirectory
                   then (case recurse fullPath t of
                           (Some e, t1) \<Rightarrow> t1
                         | (None, t1) \<Rightarrow> traverseEntries this recurse rootPath currentPath entries t1)
                   else (let filesProcessed1 = trav_count t + 1;
                             t1 = t\<lparr>trav_files := trav_files t @ [fullPath],
                                    trav_count := filesProcessed1\<rparr>;
                             t2 = (if filesProcessed1 mod 100 = 0
                                   then t1\<lparr>trav_record :=
                                          (trav_record t1)\<lparr>filesProcessed := filesProcessed1\<rparr>\<rparr>
                                   else t1)
                         in traverseEntries this recurse rootPath currentPath entries t2)))"

function traverseDirectory ::
  "Scanner option \<Rightarrow> filesystem \<Rightarrow> path \<Rightarrow> int \<Rightarrow> path \<Rightarrow> int \<Rightarrow> Traversal
     \<Rightarrow> Error option \<times> Traversal" where
  "traverseDirectory this F rootPath maxDepth currentPath depth t =
     (if depth > maxDepth then (None, t)
      else (case callShouldStopScan this of
              Inl e \<Rightarrow> (Some e, t)
            | Inr True \<Rightarrow> (None, t)
            | Inr False \<Rightarrow>
                (case readdir F currentPath of
                   None \<Rightarrow> (None, t)
                 | Some entries \<Rightarrow>
                     (None,
                      traverseEntries this
                        (\<lambda>fullPath t1. traverseDirectory None F rootPath maxDepth fullPath (depth + 1) t1)
                        rootPath currentPath entries t))))"
  by pat_completeness auto
termination
  by (relation "measure (\<lambda>(this, F, rootPath, maxDepth, currentPath, depth, t).
                   nat (maxDepth + 1 - depth))")
     auto

declare traverseDirectory.simps [simp del]

definition quickTraverseDirectory ::
  "filesystem \<Rightarrow> Scanner \<Rightarrow> path \<Rightarrow> ScanPhaseRecord \<Rightarrow> Error option \<times> path list \<times> ScanPhaseRecord" where
  "quickTraverseDirectory F this rootPath phaseRecord =
     (let maxDepth =
            (case performanceLimits (config this) of
               None \<Rightarrow> 10
             | Some limits \<Rightarrow> if limit_maxDepth limits = 0 then 10 else limit_maxDepth limits);
          (thrown, t) =
            traverseDirectory (Some this) F rootPath maxDepth rootPath 0
              \<lparr>trav_files = [], trav_count = 0, trav_record = phaseRecord\<rparr>
      in (thrown, trav_files t, trav_record t))"

subsection \<open>Candidate module roots\<close>

definition moduleIndicators :: "string list" where
  "moduleIndicators =
     [''package.json'', ''go.mod'', ''pyproject.toml'', ''setup.py'', ''Cargo.toml'', ''pom.xml'',
      ''build.gradle'', ''csproj'', ''sln'']"

definition commonModuleDirs :: "string list" where
  "commonModuleDirs = [''packages'', ''libs'', ''modules'', ''apps'', ''services'', ''components'']"

text \<open>Adding to a JavaScript \<open>Set\<close>, which keeps the order of first insertion.\<close>

definition setAdd :: "'a \<Rightarrow> 'a list \<Rightarrow> 'a list" where
  "setAdd x xs = (if x \<in> set xs then xs else xs @ [x])"

text \<open>Splitting the empty relative path at the separator gives one empty part.\<close>

fun indicatorRoots :: "path \<Rightarrow> path list \<Rightarrow> path list \<Rightarrow> path list" where
  "indicatorRoots rootPath [] modulePaths = modulePaths"
| "indicatorRoots rootPath (filePath # files) modulePaths =
     (let relativePath = relative rootPath filePath;
          pathParts = (if relativePath = [] then [[]] else relativePath);
          fileName = last pathParts
      in if fileName \<in> set moduleIndicators
         then indicatorRoots rootPath files (setAdd (join rootPath (butlast pathParts)) modulePaths)
         else indicatorRoots rootPath files modulePaths)"

fun subdirectoriesOf :: "path \<Rightarrow> Dirent list \<Rightarrow> path list" where
  "subdirectoriesOf dirPath [] = []"
| "subdirectoriesOf dirPath (entry # entries) =
     (if entry_kind entry = IsDirectory \<and> \<not> startsWith (entry_name entry) ''.''
      then join dirPath [entry_name entry] # subdirectoriesOf dirPath entries
      else subdirectoriesOf dirPath entries)"

definition findSubdirectories :: "filesystem \<Rightarrow> path \<Rightarrow> path list" where
  "findSubdirectories F dirPath =
     (case readdir F dirPath of None \<Rightarrow> [] | Some entries \<Rightarrow> subdirectoriesOf dirPath entries)"

text \<open>
  The callback that \<open>quickIdentifyModules\<close> hands to \<open>subDirs.forEach\<close> evaluates
  \<open>await this.detectorManager.isModuleRoot(subDir)\<close> although it is not an
  \<open>async\<close> function, which JavaScript does not accept: the source gives the
  callback no meaning. What a call of it does is therefore left open, as the
  parameter \<open>awaited\<close>: \<open>awaited subDir\<close> is \<open>Some True\<close> when the call adds
  \<open>subDir\<close> to the set of module paths, \<open>Some False\<close> when it adds nothing, and
  \<open>None\<close> when it throws, which ends \<open>forEach\<close> and is swallowed by the \<open>try\<close>
  around it. The callback is called only for a subdirectory of one of the common
  module directories.
\<close>

fun addModuleRoots :: "(path \<Rightarrow> bool option) \<Rightarrow> path list \<Rightarrow> path list \<Rightarrow> path list" where
  "addModuleRoots awaited [] modulePaths = modulePaths"
| "addModuleRoots awaited (subDir # subDirs) modulePaths =
     (case awaited subDir of
        None \<Rightarrow> modulePaths
      | Some True \<Rightarrow> addModuleRoots awaited subDirs (setAdd subDir modulePaths)
      | Some False \<Rightarrow> addModuleRoots awaited subDirs modulePaths)"

fun containerRoots ::
  "(path \<Rightarrow> bool option) \<Rightarrow> filesystem \<Rightarrow> path \<Rightarrow> string list \<Rightarrow> path list \<Rightarrow> path list" where
  "containerRoots awaited F rootPath [] modulePaths = modulePaths"
| "containerRoots awaited F rootPath (moduleDir # rest) modulePaths =
     (let moduleDirPath = join rootPath [moduleDir]
      in if access F moduleDirPath
         then containerRoots awaited F rootPath rest
                (addModuleRoots awaited (findSubdirectories F moduleDirPath) modulePaths)
         else containerRoots awaited F rootPath rest modulePaths)"

definition quickIdentifyModules ::
  "(path \<Rightarrow> bool option) \<Rightarrow> filesystem \<Rightarrow> path list \<Rightarrow> path \<Rightarrow> path list" where
  "quickIdentifyModules awaited F files rootPath =
     containerRoots awaited F rootPath commonModuleDirs (indicatorRoots rootPath files [])"

subsection \<open>Detect-only classification\<close>

definition extractModuleName :: "path \<Rightarrow> string" where
  "extractModuleName modulePath =
     (if modulePath = [] \<or> last modulePath = [] then ''unknown'' else last modulePath)"

definition quickAnalyzeModule ::
  "DetectorManager \<Rightarrow> filesystem \<Rightarrow> path \<Rightarrow> ProjectType \<Rightarrow> Error + ModuleInfo" where
  "quickAnalyzeModule dm F modulePath t =
     (let moduleName = extractModuleName modulePath
      in case getDetector dm t of
           None \<Rightarrow>
             Inl (ScanErr \<lparr>message = Literal ''No detector for the project type'',
                           code = ''DETECTOR_NOT_FOUND'', error_path = Some modulePath,
                           error_phase = None\<rparr>)
         | Some detector \<Rightarrow>
             (case detect detector F modulePath of
                None \<Rightarrow> Inl (OtherError (Literal ''detect failed''))
              | Some False \<Rightarrow>
                  Inl (ScanErr \<lparr>message = Literal ''Module type detection failed'',
                                code = ''MODULE_TYPE_MISMATCH'', error_path = Some modulePath,
                                error_phase = None\<rparr>)
              | Some True \<Rightarrow>
                  Inr \<lparr>mod_path = modulePath, mod_name = moduleName, mod_type = t,
                       entryPoints = [], dependencies = [], devDependencies = [], keyFiles = [],
                       testFiles = [], configFiles = [], docs = [],
                       metadata = \<lparr>md_description = [], author = [], license = [],
                                    repository = [], md_keywords = [], scripts = [],
                                    engines = []\<rparr>\<rparr>))"

text \<open>The body of the loop is in \<open>try\<close>: an exception skips the module at hand.\<close>

fun quickAnalyzeModules :: "Scanner \<Rightarrow> filesystem \<Rightarrow> path list \<Rightarrow> ModuleInfo list" where
  "quickAnalyzeModules this F [] = []"
| "quickAnalyzeModules this F (modulePath # rest) =
     (case shouldStopScan this of
        Inl e \<Rightarrow> quickAnalyzeModules this F rest
      | Inr True \<Rightarrow> []
      | Inr False \<Rightarrow>
          (let t = detectProjectType (detectorManager this) F modulePath
           in if t = UNKNOWN then quickAnalyzeModules this F rest
              else (case quickAnalyzeModule (detectorManager this) F modulePath t of
                      Inl e \<Rightarrow> quickAnalyzeModules this F rest
                    | Inr moduleInfo \<Rightarrow> moduleInfo # quickAnalyzeModules this F rest)))"

subsection \<open>Statistics and recommendations\<close>

definition updateStatistics ::
  "ScanStatistics \<Rightarrow> path list \<Rightarrow> path list \<Rightarrow> ModuleInfo list \<Rightarrow> ScanStatistics" where
  "updateStatistics stats allFiles filteredFiles moduleInfos =
     (let stats1 = stats\<lparr>totalFiles := int (length allFiles),
                         scannedFiles := int (length filteredFiles),
                         ignoredFiles := int (length allFiles) - int (length filteredFiles),
                         modulesFound := int (length moduleInfos)\<rparr>
      in if totalFiles stats1 > 0
         then stats1\<lparr>coverage := percentage (scannedFiles stats1) (totalFiles stats1)\<rparr>
         else stats1)"

definition noModulesRecommendation :: Recommendation where
  "noModulesRecommendation =
     \<lparr>rec_type = scan_deeper, rec_priority = high,
      title = Literal ''No modules found, a deep scan is recommended'',
      rec_description = Literal ''The quick scan found no project modules'',
      targetPath = None,
      rec_action = Some (Literal ''Run a full scan with --phases quick,module,deep'')\<rparr>"

definition lowCoverageRecommendation :: "rat \<Rightarrow> Recommendation" where
  "lowCoverageRecommendation c =
     \<lparr>rec_type = scan_deeper, rec_priority = medium,
      title = Literal ''Scan coverage is low'',
      rec_description = WithCoverage ''Scan coverage in percent is only '' c,
      targetPath = None,
      rec_action = Some (Literal ''Adjust the filter configuration or enable the deep scan'')\<rparr>"

definition unknownTypeRecommendation :: Recommendation where
  "unknownTypeRecommendation =
     \<lparr>rec_type = add_config, rec_priority = medium,
      title = Literal ''Unrecognised project type'',
      rec_description = Literal ''The project type could not be recognised'',
      targetPath = None,
      rec_action = Some (Literal ''Set the project type by hand or add a custom detector'')\<rparr>"

definition moduleScanRecommendation :: "int \<Rightarrow> Recommendation" where
  "moduleScanRecommendation n =
     \<lparr>rec_type = scan_deeper, rec_priority = low,
      title = Literal ''A module scan is recommended'',
      rec_description = WithNumber ''Modules found: '' n,
      targetPath = None,
      rec_action = Some (Literal ''Run a module scan with --phases module'')\<rparr>"

definition generateQuickRecommendations :: "Scanner \<Rightarrow> Scanner" where
  "generateQuickRecommendations this =
     (let stats = scanStatistics (scanResult this);
          recs1 = (if modulesFound stats = 0 then [noModulesRecommendation] else []);
          recs2 = (if coverage stats < 30 then recs1 @ [lowCoverageRecommendation (coverage stats)]
                   else recs1);
          recs3 = (if projectType (scanResult this) = UNKNOWN
                   then recs2 @ [unknownTypeRecommendation] else recs2);
          recs4 = (if modulesFound stats > 0
                   then recs3 @ [moduleScanRecommendation (modulesFound stats)] else recs3)
      in this\<lparr>scanResult := (scanResult this)\<lparr>recommendations := recs4\<rparr>\<rparr>)"

subsection \<open>The three phases of the quick scanner\<close>

definition performQuickScan ::
  "library \<Rightarrow> filesystem \<Rightarrow> (path \<Rightarrow> bool option) \<Rightarrow> PhaseFn" where
  "performQuickScan L F awaited p phaseRecord this H =
     (let this1 = this\<lparr>fileFilter := loadGitignore F (fileFilter this) p\<rparr>;
          (thrown, allFiles, record1) = quickTraverseDirectory F this1 p phaseRecord
      in case thrown of
           Some e \<Rightarrow>
             (Some (ScanErr \<lparr>message = Prefixed ''Quick scan failed: '' (errorMessage e),
                             code = ''QUICK_SCAN_FAILED'', error_path = Some p,
                             error_phase = Some QUICK\<rparr>),
              record1, this1, H)
         | None \<Rightarrow>
             (let (filteredFiles, filter2, H2) = filterFiles L F H (fileFilter this1) allFiles p;
                  this2 = this1\<lparr>fileFilter := filter2\<rparr>;
                  this3 = this2\<lparr>scanResult :=
                            (scanResult this2)\<lparr>projectType :=
                               detectProjectType (detectorManager this2) F p\<rparr>\<rparr>;
                  modulePaths = quickIdentifyModules awaited F filteredFiles p;
                  moduleInfos = quickAnalyzeModules this3 F modulePaths;
                  this4 = this3\<lparr>scanResult := (scanResult this3)\<lparr>modules := moduleInfos\<rparr>\<rparr>;
                  this5 = this4\<lparr>scanResult :=
                            (scanResult this4)\<lparr>scanStatistics :=
                               updateStatistics (scanStatistics (scanResult this4))
                                 allFiles filteredFiles moduleInfos\<rparr>\<rparr>;
                  this6 = generateQuickRecommendations this5
              in (None,
                  record1\<lparr>filesProcessed := totalFiles (scanStatistics (scanResult this6))\<rparr>,
                  this6, H2)))"

definition performModuleScan :: PhaseFn where
  "performModuleScan p phaseRecord this H =
     (Some (ScanErr \<lparr>message = Literal ''QuickScanner does not support the module scan phase'',
                     code = ''UNSUPPORTED_PHASE'', error_path = Some p,
                     error_phase = Some MODULE\<rparr>),
      phaseRecord, this, H)"

definition performDeepScan :: PhaseFn where
  "performDeepScan p phaseRecord this H =
     (Some (ScanErr \<lparr>message = Literal ''QuickScanner does not support the deep scan phase'',
                     code = ''UNSUPPORTED_PHASE'', error_path = Some p,
                     error_phase = Some DEEP\<rparr>),
      phaseRecord, this, H)"

definition QuickScanner :: "library \<Rightarrow> filesystem \<Rightarrow> (path \<Rightarrow> bool option) \<Rightarrow> PhaseImpl" where
  "QuickScanner L F awaited =
     \<lparr>impl_quick = performQuickScan L F awaited, impl_module = performModuleScan,
      impl_deep = performDeepScan\<rparr>"

subsection \<open>Test fixtures for the scanner\<close>

text \<open>A clock on which every phase takes five milliseconds.\<close>

definition fixedClock :: "nat \<Rightarrow> int \<times> int" where
  "fixedClock i = (int i * 10, int i * 10 + 5)"

definition someStats :: "Stats option" where
  "someStats = Some \<lparr>stats_size = 1, stats_isDirectory = False\<rparr>"

text \<open>A repository that holds eleven text files and nothing else.\<close>

definition elevenNames :: "string list" where
  "elevenNames = [''f01.txt'', ''f02.txt'', ''f03.txt'', ''f04.txt'', ''f05.txt'', ''f06.txt'',
                  ''f07.txt'', ''f08.txt'', ''f09.txt'', ''f10.txt'', ''f11.txt'']"

definition elevenDisk :: filesystem where
  "elevenDisk =
     \<lparr>readdir = (\<lambda>p. if p = [''repo''] then Some (map fileEntry elevenNames) else None),
      stat = (\<lambda>p. if p \<in> set (map (\<lambda>n. [''repo'', n]) elevenNames) then someStats else None),
      access = (\<lambda>p. p = [''repo''] \<or> p \<in> set (map (\<lambda>n. [''repo'', n]) elevenNames)),
      readFile = (\<lambda>p. None)\<rparr>"

definition limitTen :: ScanConfig where
  "limitTen =
     \<lparr>fileFilters = [], config_ignoreRules = [],
      performanceLimits = Some (DEFAULT_LIMITS\<lparr>maxFiles := 10\<rparr>)\<rparr>"

text \<open>
  A disk with a repository that holds two log files and a text file, no manifest
  and no source file, and with an empty directory beside it.
\<close>

definition bareFiles :: "path list" where
  "bareFiles = [[''repo'', ''app.log''], [''repo'', ''debug.log''], [''repo'', ''notes.txt'']]"

definition bareDisk :: filesystem where
  "bareDisk =
     \<lparr>readdir = (\<lambda>p. if p = [''repo'']
                      then Some [fileEntry ''app.log'', fileEntry ''debug.log'', fileEntry ''notes.txt'']
                      else if p = [''empty''] then Some [] else None),
      stat = (\<lambda>p. if p \<in> set bareFiles then someStats else None),
      access = (\<lambda>p. p = [''repo''] \<or> p = [''empty''] \<or> p \<in> set bareFiles),
      readFile = (\<lambda>p. None)\<rparr>"

definition bareImpl :: "(path \<Rightarrow> bool option) \<Rightarrow> PhaseImpl" where
  "bareImpl awaited = QuickScanner logMatch bareDisk awaited"


text \<open>
  A new quick scanner with the default configuration, and that scanner as \<open>scan\<close>
  hands it to the quick phase of a scan of the repository, with or without a
  listener for \<open>error\<close> events.
\<close>

definition bareScanner :: Scanner where
  "bareScanner = newQuickScanner None"





section \<open>Properties of the file filter system\<close>

lemma matchPattern_Glob [simp]: "matchPattern L H p (Glob g) = (matchGlob L p g, H)"
  by (simp add: matchPattern_def)

lemma ruleMatches_iff:
  "ruleMatches L p rs = (\<exists>r\<in>set rs. matchGlob L p (rule_pattern r))"
  by (induction rs) auto

lemma ruleMatches_noMatch: "ruleMatches noMatch p rs = False"
  by (induction rs) (auto simp: matchGlob_def noMatch_def)

lemma filterMatches_noMatch: "filterMatches noMatch plainHeap p fs = (False, plainHeap)"
  by (induction fs)
     (auto simp: matchPattern_def matchGlob_def RegExp_test_def noMatch_def plainHeap_def
        stateful_def Let_def split: Pattern.splits)

subsection \<open>The cache never hides an ignore rule\<close>

lemma cache_sound_empty: "ignoreCache s = Map.empty \<Longrightarrow> cache_sound L s"
  by (simp add: cache_sound_def)

lemma ignoreCache_pushFilters [simp]: "ignoreCache (pushFilters s fs) = ignoreCache s"
  by (induction fs arbitrary: s) auto

lemma ignoreRules_pushFilters [simp]: "ignoreRules (pushFilters s fs) = ignoreRules s"
  by (induction fs arbitrary: s) auto

lemma cache_sound_addFilters: "cache_sound L s \<Longrightarrow> cache_sound L (addFilters s fs)"
  by (simp add: cache_sound_def addFilters_def Let_def shouldIgnore_def)

lemma cache_sound_addIgnoreRules: "cache_sound L (addIgnoreRules s rs)"
  by (simp add: cache_sound_empty addIgnoreRules_def clearCache_def)

lemma cache_sound_shouldInclude:
  "cache_sound L s \<Longrightarrow> cache_sound L (fst (snd (shouldInclude L F H s p rootPath)))"
  by (auto simp: cache_sound_def shouldInclude_def Let_def cachePut_def shouldIgnore_def
           split_beta split: option.splits if_splits)

lemma cache_sound_filterFiles:
  "cache_sound L s \<Longrightarrow> cache_sound L (fst (snd (filterFiles L F H s ps rootPath)))"
proof (induction ps arbitrary: s H)
  case Nil
  then show ?case by simp
next
  case (Cons p ps)
  have "cache_sound L (fst (snd (shouldInclude L F H s p rootPath)))"
    using Cons.prems by (rule cache_sound_shouldInclude)
  from Cons.IH [OF this] show ?case
    by (simp add: split_beta Let_def)
qed

lemma cache_sound_loadGitignore:
  "cache_sound L s \<Longrightarrow> cache_sound L (loadGitignore F s rootPath)"
  by (auto simp: loadGitignore_def Let_def cache_sound_addIgnoreRules split: option.splits)

lemma cache_sound_applyOp: "cache_sound L (fst sH) \<Longrightarrow> cache_sound L (fst (applyOp L sH x))"
  by (cases sH; cases x)
     (auto simp: cache_sound_loadGitignore cache_sound_addFilters cache_sound_addIgnoreRules
        cache_sound_shouldInclude cache_sound_filterFiles cache_sound_empty clearCache_def
        reset_def importConfig_def initializeDefaultIgnoreRules_def
        initializeDefaultFilters_def emptySystem_def)

lemma cache_sound_run: "cache_sound L (fst sH) \<Longrightarrow> cache_sound L (fst (run L sH ops))"
  by (induction ops arbitrary: sH) (auto simp: cache_sound_applyOp)

lemma cache_sound_new: "cache_sound L (newFileFilterSystem cf cr)"
  by (auto simp: newFileFilterSystem_def Let_def cache_sound_addIgnoreRules
      cache_sound_addFilters cache_sound_empty initializeDefaultIgnoreRules_def
      initializeDefaultFilters_def emptySystem_def split: option.splits)

text \<open>
  Claim C1. In every state that a filter system reaches from its constructor by
  any sequence of its public operations (queries included, so with any content
  of the cache, and from any heap \<open>H0\<close>), a path whose root-relative path matches
  the pattern of some ignore rule is not included, whatever the include and
  exclude filters are and whatever the state \<open>H\<close> of their \<open>RegExp\<close> objects is.
\<close>

theorem shouldInclude_ignored:
  assumes "r \<in> set (ignoreRules (fst (run L (newFileFilterSystem cf cr, H0) ops)))"
    and "fst (matchPattern L H (relative rootPath p) (Glob (rule_pattern r)))"
  shows "fst (shouldInclude L F H (fst (run L (newFileFilterSystem cf cr, H0) ops)) p rootPath)
           = False"
proof -
  let ?s = "fst (run L (newFileFilterSystem cf cr, H0) ops)"
  have cs: "cache_sound L ?s"
    using cache_sound_run [of L "(newFileFilterSystem cf cr, H0)"] cache_sound_new by simp
  have ign: "shouldIgnore L ?s (relative rootPath p)"
    using assms by (auto simp: shouldIgnore_def ruleMatches_iff)
  show ?thesis
    using cs ign
    by (auto simp: shouldInclude_def Let_def cache_sound_def split: option.splits)
qed

text \<open>
  The witness: the default rule for log files ignores \<open>app.log\<close> although a
  custom include filter of priority 100 matches it too.
\<close>

theorem shouldInclude_ignored_witness:
  "mkRule ''*.log'' ''log file'' 5
     \<in> set (ignoreRules (fst (run logMatch (newFileFilterSystem None None, plainHeap)
          [AddFilters [\<lparr>name = ''Logs'', pattern = Glob ''*.log'', action = Include,
                        priority = 100\<rparr>]])))
   \<and> fst (matchPattern logMatch plainHeap (relative [''repo''] [''repo'', ''app.log''])
       (Glob (rule_pattern (mkRule ''*.log'' ''log file'' 5))))
   \<and> fst (filterMatches logMatch plainHeap (relative [''repo''] [''repo'', ''app.log''])
       (includeFilters logSystem))
   \<and> fst (shouldInclude logMatch plainDisk plainHeap
            (fst (run logMatch (newFileFilterSystem None None, plainHeap)
               [AddFilters [\<lparr>name = ''Logs'', pattern = Glob ''*.log'', action = Include,
                             priority = 100\<rparr>]]))
            [''repo'', ''app.log''] [''repo'']) = False"
proof -
  have h1: "mkRule ''*.log'' ''log file'' 5
     \<in> set (ignoreRules (fst (run logMatch (newFileFilterSystem None None, plainHeap)
          [AddFilters [\<lparr>name = ''Logs'', pattern = Glob ''*.log'', action = Include,
                        priority = 100\<rparr>]])))"
    by (simp add: addFilters_def Let_def newFileFilterSystem_def
        initializeDefaultIgnoreRules_def initializeDefaultFilters_def emptySystem_def
        defaultIgnoreRules_def)
  have h2: "fst (matchPattern logMatch plainHeap (relative [''repo''] [''repo'', ''app.log''])
       (Glob (rule_pattern (mkRule ''*.log'' ''log file'' 5))))"
    by code_simp
  have h3: "fst (filterMatches logMatch plainHeap (relative [''repo''] [''repo'', ''app.log''])
       (includeFilters logSystem))"
    by code_simp
  show ?thesis
    using h1 h2 h3 shouldInclude_ignored [OF h1 h2, of plainDisk] by simp
qed

subsection \<open>The default decision\<close>

text \<open>
  Claim C2, as stated, fails in two ways. No pattern matches anything here, so
  no ignore rule and no filter matches \<open>ghost.bin\<close>. On the empty disk
  \<open>fs.stat\<close> throws for it, and it is not included. That decision is cached:
  the system that has answered it still answers \<open>false\<close> on a disk on which the
  file exists.
\<close>

theorem shouldInclude_unreadable_counterexample:
  "shouldIgnore noMatch (newFileFilterSystem None None)
       (relative [''repo''] [''repo'', ''ghost.bin'']) = False
   \<and> fst (filterMatches noMatch plainHeap (relative [''repo''] [''repo'', ''ghost.bin''])
         (excludeFilters (newFileFilterSystem None None))) = False
   \<and> fst (filterMatches noMatch plainHeap (relative [''repo''] [''repo'', ''ghost.bin''])
         (includeFilters (newFileFilterSystem None None))) = False
   \<and> fst (shouldInclude noMatch emptyDisk plainHeap (newFileFilterSystem None None)
         [''repo'', ''ghost.bin''] [''repo'']) = False
   \<and> stat plainDisk [''repo'', ''ghost.bin''] \<noteq> None
   \<and> fst (shouldInclude noMatch plainDisk plainHeap
         (fst (snd (shouldInclude noMatch emptyDisk plainHeap (newFileFilterSystem None None)
            [''repo'', ''ghost.bin''] [''repo''])))
         [''repo'', ''ghost.bin''] [''repo'']) = False"
  by (simp add: shouldIgnore_def ruleMatches_noMatch filterMatches_noMatch shouldInclude_def
      Let_def emptyDisk_def plainDisk_def cachePut_def newFileFilterSystem_def
      initializeDefaultIgnoreRules_def initializeDefaultFilters_def emptySystem_def)

text \<open>
  Claim C2, amended. In any state of the filter system and of the heap: when a
  decision is cached for the root-relative path, \<open>shouldInclude\<close> returns it.
  When none is cached, a path whose \<open>fs.stat\<close> throws is not included, and a
  path whose \<open>fs.stat\<close> succeeds and whose root-relative path is matched by no
  ignore rule and by no exclude filter is included, whether or not an include
  filter matches it.
\<close>

theorem shouldInclude_default:
  "(ignoreCache s (relative rootPath p) = Some b
      \<longrightarrow> fst (shouldInclude L F H s p rootPath) = b)
   \<and> (ignoreCache s (relative rootPath p) = None \<and> stat F p = None
      \<longrightarrow> fst (shouldInclude L F H s p rootPath) = False)
   \<and> (ignoreCache s (relative rootPath p) = None \<and> stat F p \<noteq> None
        \<and> \<not> shouldIgnore L s (relative rootPath p)
        \<and> \<not> fst (filterMatches L H (relative rootPath p) (excludeFilters s))
      \<longrightarrow> fst (shouldInclude L F H s p rootPath) = True)"
  by (auto simp: shouldInclude_def Let_def applyFilters_def split_beta split: option.splits)

text \<open>
  The witness: a file that exists and that nothing matches, asked of a new
  system and of the system that has cached the answer for the missing file; and
  a missing file.
\<close>

theorem shouldInclude_default_witness:
  "ignoreCache (newFileFilterSystem None None) (relative [''repo''] [''repo'', ''ghost.bin'']) = None
   \<and> stat plainDisk [''repo'', ''ghost.bin''] \<noteq> None
   \<and> \<not> shouldIgnore noMatch (newFileFilterSystem None None)
        (relative [''repo''] [''repo'', ''ghost.bin''])
   \<and> \<not> fst (filterMatches noMatch plainHeap (relative [''repo''] [''repo'', ''ghost.bin''])
         (excludeFilters (newFileFilterSystem None None)))
   \<and> fst (shouldInclude noMatch plainDisk plainHeap (newFileFilterSystem None None)
         [''repo'', ''ghost.bin''] [''repo'']) = True
   \<and> stat emptyDisk [''repo'', ''ghost.bin''] = None
   \<and> fst (shouldInclude noMatch emptyDisk plainHeap (newFileFilterSystem None None)
         [''repo'', ''ghost.bin''] [''repo'']) = False
   \<and> ignoreCache
        (fst (snd (shouldInclude noMatch emptyDisk plainHeap (newFileFilterSystem None None)
           [''repo'', ''ghost.bin''] [''repo''])))
        (relative [''repo''] [''repo'', ''ghost.bin'']) = Some False
   \<and> fst (shouldInclude noMatch plainDisk plainHeap
        (fst (snd (shouldInclude noMatch emptyDisk plainHeap (newFileFilterSystem None None)
           [''repo'', ''ghost.bin''] [''repo''])))
        [''repo'', ''ghost.bin''] [''repo'']) = False"
proof -
  let ?s = "newFileFilterSystem None None"
  let ?p = "[''repo'', ''ghost.bin'']"
  let ?s1 = "fst (snd (shouldInclude noMatch emptyDisk plainHeap ?s ?p [''repo'']))"
  have h0: "ignoreCache ?s (relative [''repo''] ?p) = None"
    by (simp add: newFileFilterSystem_def initializeDefaultIgnoreRules_def
        initializeDefaultFilters_def emptySystem_def)
  have h1: "stat plainDisk ?p \<noteq> None"
    by (simp add: plainDisk_def)
  have h2: "\<not> shouldIgnore noMatch ?s (relative [''repo''] ?p)"
    by (simp add: shouldIgnore_def ruleMatches_noMatch)
  have h3: "\<not> fst (filterMatches noMatch plainHeap (relative [''repo''] ?p) (excludeFilters ?s))"
    by (simp add: filterMatches_noMatch)
  have h4: "stat emptyDisk ?p = None"
    by (simp add: emptyDisk_def)
  have h5: "ignoreCache ?s1 (relative [''repo''] ?p) = Some False"
    using h0 h4 by (simp add: shouldInclude_def Let_def cachePut_def)
  have c1: "fst (shouldInclude noMatch plainDisk plainHeap ?s ?p [''repo'']) = True"
    using shouldInclude_default [of ?s "[''repo'']" ?p True noMatch plainDisk plainHeap]
      h0 h1 h2 h3 by blast
  have c2: "fst (shouldInclude noMatch emptyDisk plainHeap ?s ?p [''repo'']) = False"
    using shouldInclude_default [of ?s "[''repo'']" ?p True noMatch emptyDisk plainHeap]
      h0 h4 by blast
  have c3: "fst (shouldInclude noMatch plainDisk plainHeap ?s1 ?p [''repo'']) = False"
    using shouldInclude_default [of ?s1 "[''repo'']" ?p False noMatch plainDisk plainHeap]
      h5 by blast
  show ?thesis
    using h0 h1 h2 h3 h4 h5 c1 c2 c3 by blast
qed

subsection \<open>Exporting and importing the configuration\<close>

lemma includeFilters_pushFilters:
  "includeFilters (pushFilters s fs) = includeFilters s @ filter (\<lambda>f. action f = Include) fs"
  by (induction fs arbitrary: s) auto

lemma excludeFilters_pushFilters:
  "excludeFilters (pushFilters s fs) = excludeFilters s @ filter (\<lambda>f. action f \<noteq> Include) fs"
  by (induction fs arbitrary: s) auto

lemma action_not_Include: "(a \<noteq> Include) = (a = Exclude)"
  by (cases a) auto

lemma default_actions:
  "\<forall>f\<in>set defaultIncludeFilters. action f = Include"
  "\<forall>f\<in>set defaultExcludeFilters. action f = Exclude"
  by (simp_all add: defaultIncludeFilters_def defaultExcludeFilters_def mkFilter_def)

lemma default_globs:
  "filter isRegExp defaultExcludeFilters = []"
  "filter isRegExp defaultIncludeFilters = []"
  by (simp_all add: defaultIncludeFilters_def defaultExcludeFilters_def mkFilter_def isRegExp_def)

lemma well_configured_addFilters: "well_configured s \<Longrightarrow> well_configured (addFilters s fs)"
  by (auto simp: well_configured_def addFilters_def Let_def sortFilters_def
      includeFilters_pushFilters excludeFilters_pushFilters action_not_Include)

lemma well_configured_addIgnoreRules:
  "well_configured s \<Longrightarrow> well_configured (addIgnoreRules s rs)"
  by (auto simp: well_configured_def addIgnoreRules_def clearCache_def sortRules_def)

lemma well_configured_reset: "well_configured (reset s)"
  using default_actions default_globs
  by (simp add: well_configured_def reset_def initializeDefaultIgnoreRules_def
      initializeDefaultFilters_def emptySystem_def)

lemma well_configured_new: "well_configured (newFileFilterSystem cf cr)"
  using well_configured_reset [of emptySystem]
  by (auto simp: newFileFilterSystem_def Let_def reset_def well_configured_addFilters
      well_configured_addIgnoreRules split: option.splits)

lemma well_configured_configure: "well_configured s \<Longrightarrow> well_configured (configure s adds)"
  by (induction s adds rule: configure.induct)
     (auto simp: well_configured_addFilters well_configured_addIgnoreRules)

text \<open>
  The loop over a list of filters answers \<open>true\<close> when a string pattern of the
  list matches, and otherwise what the loop over the \<open>RegExp\<close> filters of the
  list answers: a string pattern that does not match changes nothing.
\<close>

lemma filterMatches_split:
  "fst (filterMatches L H p fs) =
     ((\<exists>f\<in>set fs. globMatches L p f) \<or> fst (filterMatches L H p (filter isRegExp fs)))"
proof (induction fs arbitrary: H)
  case Nil
  then show ?case by simp
next
  case (Cons f fs)
  show ?case
  proof (cases "pattern f")
    case (Glob g)
    then show ?thesis
      using Cons.IH [of H] by (auto simp: globMatches_def isRegExp_def)
  next
    case (RegExp r)
    then show ?thesis
      using Cons.IH [of "snd (matchPattern L H p (pattern f))"]
      by (auto simp: globMatches_def isRegExp_def split_beta Let_def)
  qed
qed

lemma shouldInclude_uncached:
  "ignoreCache s = Map.empty \<Longrightarrow>
   fst (shouldInclude L F H s p rootPath) =
     (stat F p \<noteq> None \<and> \<not> ruleMatches L (relative rootPath p) (ignoreRules s)
      \<and> \<not> fst (filterMatches L H (relative rootPath p) (excludeFilters s)))"
  by (auto simp: shouldInclude_def Let_def shouldIgnore_def applyFilters_def split_beta
      split: option.splits)

lemma importConfig_exportConfig_lists:
  assumes "well_configured s"
  shows "set (ignoreRules (importConfig s (exportConfig s))) = set (ignoreRules s)"
    and "excludeFilters (importConfig s (exportConfig s))
           = sortFilters (defaultExcludeFilters @ excludeFilters s)"
    and "includeFilters (importConfig s (exportConfig s))
           = sortFilters (defaultIncludeFilters @ includeFilters s)"
    and "ignoreCache (importConfig s (exportConfig s)) = Map.empty"
proof -
  have inc: "filter (\<lambda>f. action f = Include) (includeFilters s) = includeFilters s"
    "filter (\<lambda>f. action f = Include) (excludeFilters s) = []"
    "filter (\<lambda>f. action f \<noteq> Include) (includeFilters s) = []"
    "filter (\<lambda>f. action f \<noteq> Include) (excludeFilters s) = excludeFilters s"
    using assms by (auto simp: well_configured_def filter_empty_conv filter_id_conv)
  show "set (ignoreRules (importConfig s (exportConfig s))) = set (ignoreRules s)"
    using assms
    by (auto simp: well_configured_def importConfig_def exportConfig_def addIgnoreRules_def
        clearCache_def sortRules_def addFilters_def Let_def reset_def
        initializeDefaultIgnoreRules_def initializeDefaultFilters_def emptySystem_def)
  show "excludeFilters (importConfig s (exportConfig s))
           = sortFilters (defaultExcludeFilters @ excludeFilters s)"
    by (simp add: importConfig_def exportConfig_def addIgnoreRules_def clearCache_def
        addFilters_def Let_def reset_def excludeFilters_pushFilters inc
        initializeDefaultIgnoreRules_def initializeDefaultFilters_def emptySystem_def)
  show "includeFilters (importConfig s (exportConfig s))
           = sortFilters (defaultIncludeFilters @ includeFilters s)"
    by (simp add: importConfig_def exportConfig_def addIgnoreRules_def clearCache_def
        addFilters_def Let_def reset_def includeFilters_pushFilters inc
        initializeDefaultIgnoreRules_def initializeDefaultFilters_def emptySystem_def)
  show "ignoreCache (importConfig s (exportConfig s)) = Map.empty"
    by (simp add: importConfig_def addIgnoreRules_def clearCache_def)
qed

text \<open>
  Importing the exported exclude filters puts a second copy of the default
  filters, which are strings, in front; the \<open>RegExp\<close> filters stay as they are.
\<close>

lemma reimported_regexps:
  assumes "well_configured s"
  shows "filter isRegExp (sortFilters (defaultExcludeFilters @ excludeFilters s))
           = filter isRegExp (excludeFilters s)"
proof -
  have "filter isRegExp (sortFilters (defaultExcludeFilters @ excludeFilters s))
          = sortFilters (filter isRegExp (excludeFilters s))"
    by (simp add: sortFilters_def filter_sort default_globs)
  also have "\<dots> = filter isRegExp (excludeFilters s)"
  proof (cases "sorted (map (\<lambda>f. - priority f) (excludeFilters s))")
    case True
    then have "sortFilters (excludeFilters s) = excludeFilters s"
      by (simp add: sortFilters_def sort_key_id_if_sorted)
    then show ?thesis
      by (metis sortFilters_def filter_sort)
  next
    case False
    then have "filter isRegExp (excludeFilters s) = []"
      using assms by (simp add: well_configured_def)
    then show ?thesis by (simp add: sortFilters_def)
  qed
  finally show ?thesis .
qed

lemma reimported_decision:
  assumes "well_configured s"
  shows "fst (filterMatches L H p (excludeFilters (importConfig s (exportConfig s))))
           = fst (filterMatches L H p (excludeFilters s))"
proof -
  have sets: "set (sortFilters (defaultExcludeFilters @ excludeFilters s)) = set (excludeFilters s)"
    using assms by (auto simp: sortFilters_def well_configured_def)
  show ?thesis
    unfolding importConfig_exportConfig_lists(2) [OF assms]
    by (subst (1 2) filterMatches_split) (simp only: sets reimported_regexps [OF assms])
qed

text \<open>A \<open>RegExp\<close> without the flags \<open>g\<close> and \<open>y\<close> is not changed by \<open>test\<close>.\<close>

lemma filterMatches_stateless:
  "\<forall>f\<in>set fs. \<forall>r. pattern f = RegExp r \<longrightarrow> \<not> stateful (H r) \<Longrightarrow>
   snd (filterMatches L H p fs) = H"
proof (induction fs)
  case Nil
  then show ?case by simp
next
  case (Cons f fs)
  have same: "snd (matchPattern L H p (pattern f)) = H"
    using Cons.prems
    by (cases "pattern f") (auto simp: matchPattern_def RegExp_test_def Let_def split: option.splits)
  show ?case
    using Cons same by (simp add: split_beta Let_def)
qed

lemma shouldInclude_stateless:
  assumes "\<forall>f\<in>set (includeFilters s) \<union> set (excludeFilters s).
             \<forall>r. pattern f = RegExp r \<longrightarrow> \<not> stateful (H r)"
  shows "snd (snd (shouldInclude L F H s p rootPath)) = H"
proof -
  have ex: "snd (filterMatches L H q (excludeFilters s)) = H" for q
    using assms by (intro filterMatches_stateless) auto
  have inc: "snd (filterMatches L H q (includeFilters s)) = H" for q
    using assms by (intro filterMatches_stateless) auto
  show ?thesis
    by (auto simp: shouldInclude_def Let_def applyFilters_def split_beta ex inc
        split: option.splits)
qed

lemma statefulFilters_empty:
  "(statefulFilters H s = []) =
     (\<forall>f\<in>set (includeFilters s) \<union> set (excludeFilters s).
        \<forall>r. pattern f = RegExp r \<longrightarrow> \<not> stateful (H r))"
  by (auto simp: statefulFilters_def filter_empty_conv split: Pattern.splits)

lemma default_patterns:
  "\<forall>f\<in>set defaultIncludeFilters \<union> set defaultExcludeFilters. \<forall>r. pattern f \<noteq> RegExp r"
  by (simp add: defaultIncludeFilters_def defaultExcludeFilters_def mkFilter_def)

text \<open>
  Claim C10, amended. For every filter system built by the constructor (with
  any configuration) and any sequence of additions of filters and of ignore
  rules: the system that imports the exported configuration takes, from the same
  state of the \<open>RegExp\<close> objects, the same decision as the original system, for
  every path and root, on every disk and for every matching library. When no
  filter pattern is a \<open>RegExp\<close> with the flag \<open>g\<close> or \<open>y\<close>, a decision leaves
  these objects as they are, so the re-imported system, asked after the original
  one has answered any query, still takes the decision of the original system.
\<close>

theorem importConfig_exportConfig_roundtrip:
  "fst (shouldInclude L F H
          (importConfig (configure (newFileFilterSystem cf cr) adds)
             (exportConfig (configure (newFileFilterSystem cf cr) adds))) p rootPath)
     = fst (shouldInclude L F H (configure (newFileFilterSystem cf cr) adds) p rootPath)
   \<and> (statefulFilters H (configure (newFileFilterSystem cf cr) adds) = []
      \<longrightarrow> snd (snd (shouldInclude L F H (configure (newFileFilterSystem cf cr) adds) p rootPath))
            = H
        \<and> snd (snd (shouldInclude L F H
                     (importConfig (configure (newFileFilterSystem cf cr) adds)
                        (exportConfig (configure (newFileFilterSystem cf cr) adds))) p rootPath))
            = H
        \<and> fst (shouldInclude L F
                 (snd (snd (shouldInclude L F H (configure (newFileFilterSystem cf cr) adds)
                              q rootPath')))
                 (importConfig (configure (newFileFilterSystem cf cr) adds)
                    (exportConfig (configure (newFileFilterSystem cf cr) adds))) p rootPath)
            = fst (shouldInclude L F H (configure (newFileFilterSystem cf cr) adds) p rootPath))"
proof (intro conjI impI)
  let ?s = "configure (newFileFilterSystem cf cr) adds"
  let ?t = "importConfig ?s (exportConfig ?s)"
  have wc: "well_configured ?s"
    by (simp add: well_configured_configure well_configured_new)
  have c0: "ignoreCache ?s = Map.empty"
    using wc by (simp add: well_configured_def)
  show same: "fst (shouldInclude L F H ?t p rootPath) = fst (shouldInclude L F H ?s p rootPath)"
    by (simp add: shouldInclude_uncached c0 importConfig_exportConfig_lists(1,4) [OF wc]
        reimported_decision [OF wc] ruleMatches_iff)
  assume "statefulFilters H ?s = []"
  then have st: "\<forall>f\<in>set (includeFilters ?s) \<union> set (excludeFilters ?s).
                   \<forall>r. pattern f = RegExp r \<longrightarrow> \<not> stateful (H r)"
    by (simp add: statefulFilters_empty)
  show "snd (snd (shouldInclude L F H ?s p rootPath)) = H"
    using st by (rule shouldInclude_stateless)
  have "\<forall>f\<in>set (includeFilters ?t) \<union> set (excludeFilters ?t).
          \<forall>r. pattern f = RegExp r \<longrightarrow> \<not> stateful (H r)"
    using st default_patterns
    by (auto simp: importConfig_exportConfig_lists(2,3) [OF wc] sortFilters_def)
  then show "snd (snd (shouldInclude L F H ?t p rootPath)) = H"
    by (rule shouldInclude_stateless)
  have "snd (snd (shouldInclude L F H ?s q rootPath')) = H"
    using st by (rule shouldInclude_stateless)
  then show "fst (shouldInclude L F (snd (snd (shouldInclude L F H ?s q rootPath'))) ?t p rootPath)
               = fst (shouldInclude L F H ?s p rootPath)"
    using same by simp
qed

text \<open>
  Claim C10, as stated, fails. A system gets one more exclude filter, the
  regular expression \<open>[.]bak$\<close> with the flag \<open>g\<close>. Asked about \<open>notes.bak\<close>, it
  answers \<open>false\<close>: the expression matches, and \<open>test\<close> leaves \<open>lastIndex\<close> at
  the end of the match. The system that imports the exported configuration
  holds the same \<open>RegExp\<close> object; asked next about the same path, it starts the
  search at \<open>lastIndex\<close>, finds no match and answers \<open>true\<close>.
\<close>

theorem importConfig_exportConfig_shared_regexp_counterexample:
  "statefulFilters (bakRegExps ''g'') (configure (newFileFilterSystem None None) [Inl [bakFilter]])
     = [bakFilter]
   \<and> fst (shouldInclude suffixMatch plainDisk (bakRegExps ''g'')
           (configure (newFileFilterSystem None None) [Inl [bakFilter]])
           [''repo'', ''notes.bak''] [''repo'']) = False
   \<and> lastIndex (snd (snd (shouldInclude suffixMatch plainDisk (bakRegExps ''g'')
           (configure (newFileFilterSystem None None) [Inl [bakFilter]])
           [''repo'', ''notes.bak''] [''repo''])) 0) = 9
   \<and> fst (shouldInclude suffixMatch plainDisk
           (snd (snd (shouldInclude suffixMatch plainDisk (bakRegExps ''g'')
              (configure (newFileFilterSystem None None) [Inl [bakFilter]])
              [''repo'', ''notes.bak''] [''repo''])))
           (importConfig (configure (newFileFilterSystem None None) [Inl [bakFilter]])
              (exportConfig (configure (newFileFilterSystem None None) [Inl [bakFilter]])))
           [''repo'', ''notes.bak''] [''repo'']) = True"
  by code_simp

text \<open>
  The witness: the same filter with a regular expression without flags. Both
  systems exclude \<open>notes.bak\<close>, and the heap is as it was.
\<close>

theorem importConfig_exportConfig_roundtrip_witness:
  "statefulFilters (bakRegExps []) (configure (newFileFilterSystem None None) [Inl [bakFilter]]) = []
   \<and> fst (shouldInclude suffixMatch plainDisk (bakRegExps [])
           (configure (newFileFilterSystem None None) [Inl [bakFilter]])
           [''repo'', ''notes.bak''] [''repo'']) = False
   \<and> fst (shouldInclude suffixMatch plainDisk (bakRegExps [])
           (importConfig (configure (newFileFilterSystem None None) [Inl [bakFilter]])
              (exportConfig (configure (newFileFilterSystem None None) [Inl [bakFilter]])))
           [''repo'', ''notes.bak''] [''repo'']) = False
   \<and> snd (snd (shouldInclude suffixMatch plainDisk (bakRegExps [])
           (configure (newFileFilterSystem None None) [Inl [bakFilter]])
           [''repo'', ''notes.bak''] [''repo''])) = bakRegExps []
   \<and> snd (snd (shouldInclude suffixMatch plainDisk (bakRegExps [])
           (importConfig (configure (newFileFilterSystem None None) [Inl [bakFilter]])
              (exportConfig (configure (newFileFilterSystem None None) [Inl [bakFilter]])))
           [''repo'', ''notes.bak''] [''repo''])) = bakRegExps []
   \<and> fst (shouldInclude suffixMatch plainDisk
           (snd (snd (shouldInclude suffixMatch plainDisk (bakRegExps [])
              (configure (newFileFilterSystem None None) [Inl [bakFilter]])
              [''repo'', ''notes.bak''] [''repo''])))
           (importConfig (configure (newFileFilterSystem None None) [Inl [bakFilter]])
              (exportConfig (configure (newFileFilterSystem None None) [Inl [bakFilter]])))
           [''repo'', ''notes.bak''] [''repo'']) = False"
proof -
  let ?s = "configure (newFileFilterSystem None None) [Inl [bakFilter]]"
  have h1: "statefulFilters (bakRegExps []) ?s = []"
    by code_simp
  have h2: "fst (shouldInclude suffixMatch plainDisk (bakRegExps []) ?s
              [''repo'', ''notes.bak''] [''repo'']) = False"
    by code_simp
  note T = importConfig_exportConfig_roundtrip [where L = suffixMatch and F = plainDisk
      and H = "bakRegExps []" and cf = None and cr = None and adds = "[Inl [bakFilter]]"
      and p = "[''repo'', ''notes.bak'']" and rootPath = "[''repo'']"
      and q = "[''repo'', ''notes.bak'']" and rootPath' = "[''repo'']"]
  show ?thesis
    using T h1 h2 by simp
qed

section \<open>Properties of the detector registry\<close>

lemma hd_insort_key:
  "hd (insort_key f x ys) = (if ys = [] \<or> f x \<le> f (hd ys) then x else hd ys)"
  by (cases ys) auto

lemma sort_key_Nil_iff: "sort_key f xs = [] \<longleftrightarrow> xs = []"
  by (metis length_sort length_0_conv)

lemma hd_sortResults: "rs \<noteq> [] \<Longrightarrow> hd (sortResults rs) = firstBest rs"
proof (induction rs rule: firstBest.induct)
  case 1
  then show ?case by simp
next
  case (2 x)
  then show ?case by (simp add: sortResults_def)
next
  case (3 x y ys)
  have "hd (sortResults (y # ys)) = firstBest (y # ys)"
    using 3 by simp
  moreover have "sortResults (y # ys) \<noteq> []"
    by (simp add: sortResults_def sort_key_Nil_iff)
  ultimately show ?case
    by (simp add: sortResults_def hd_insort_key Let_def del: firstBest.simps(3) sort_key_simps)
       (simp add: hd_insort_key Let_def)
qed


lemma firstBest_in: "rs \<noteq> [] \<Longrightarrow> firstBest rs \<in> set rs"
  by (induction rs rule: firstBest.induct) (auto simp: Let_def)

lemma firstBest_max: "r \<in> set rs \<Longrightarrow> snd r \<le> snd (firstBest rs)"
  by (induction rs rule: firstBest.induct) (auto simp: Let_def)

lemma firstBest_Cons:
  "ys \<noteq> [] \<Longrightarrow> firstBest (x # ys) = (if snd (firstBest ys) \<le> snd x then x else firstBest ys)"
  by (cases ys) (auto simp: Let_def)

lemma firstBest_append:
  "xs \<noteq> [] \<Longrightarrow> ys \<noteq> [] \<Longrightarrow>
   firstBest (xs @ ys) =
     (if snd (firstBest ys) \<le> snd (firstBest xs) then firstBest xs else firstBest ys)"
proof (induction xs rule: firstBest.induct)
  case 1
  then show ?case by simp
next
  case (2 x)
  then show ?case by (simp add: firstBest_Cons)
next
  case (3 x y zs)
  have ih: "firstBest ((y # zs) @ ys) =
     (if snd (firstBest ys) \<le> snd (firstBest (y # zs)) then firstBest (y # zs) else firstBest ys)"
    using 3 by simp
  have "firstBest ((x # y # zs) @ ys) =
     (if snd (firstBest ((y # zs) @ ys)) \<le> snd x then x else firstBest ((y # zs) @ ys))"
    by (simp add: Let_def)
  also have "\<dots> = (if snd (firstBest ys) \<le> snd (firstBest (x # y # zs))
                    then firstBest (x # y # zs) else firstBest ys)"
    unfolding ih by (auto simp: Let_def)
  finally show ?case .
qed

lemma detectionResults_append:
  "detectionResults F p (A @ B) = detectionResults F p A @ detectionResults F p B"
  by (induction A) (auto split: option.splits bool.splits)

lemma detectionResults_origin':
  "(t, c) \<in> set (detectionResults F p R) \<Longrightarrow>
   \<exists>d. (t, d) \<in> set R \<and> detect d F p = Some True \<and> c = calculateConfidence F p t d"
proof (induction R)
  case Nil
  then show ?case by simp
next
  case (Cons a R)
  obtain t' d' where a: "a = (t', d')" by (cases a)
  show ?case
  proof (cases "detect d' F p = Some True \<and> (t, c) = (t', calculateConfidence F p t' d')")
    case True
    then show ?thesis using a by auto
  next
    case False
    then have "(t, c) \<in> set (detectionResults F p R)"
      using Cons.prems a by (auto split: option.splits bool.splits)
    from Cons.IH [OF this] show ?thesis by auto
  qed
qed

lemma detectionResults_origin:
  "r \<in> set (detectionResults F p R) \<Longrightarrow>
   \<exists>d. (fst r, d) \<in> set R \<and> detect d F p = Some True \<and> snd r = calculateConfidence F p (fst r) d"
  using detectionResults_origin' [of "fst r" "snd r"] by simp

lemma detectionResults_keys:
  "fst ` set (detectionResults F p R) \<subseteq> fst ` set R"
proof
  fix t assume "t \<in> fst ` set (detectionResults F p R)"
  then obtain r where r: "r \<in> set (detectionResults F p R)" "t = fst r" by auto
  from detectionResults_origin [OF r(1)] obtain d where "(fst r, d) \<in> set R" by blast
  then show "t \<in> fst ` set R" using r(2) by force
qed

lemma detectionResults_distinct:
  "distinct (map fst R) \<Longrightarrow> distinct (map fst (detectionResults F p R))"
proof (induction R)
  case Nil
  then show ?case by simp
next
  case (Cons a R)
  obtain t d where a: "a = (t, d)" by (cases a)
  have "t \<notin> fst ` set (detectionResults F p R)"
    using Cons.prems a detectionResults_keys [of F p R] by auto
  then show ?case using Cons a by (auto split: option.splits bool.splits)
qed

lemma detectionResults_match:
  "detect d F p = Some True \<Longrightarrow>
   detectionResults F p ((t, d) # R) = (t, calculateConfidence F p t d) # detectionResults F p R"
  by simp

lemma detectProjectType_firstBest:
  "detectionResults F p R \<noteq> [] \<Longrightarrow>
   detectProjectType R F p = fst (firstBest (detectionResults F p R))"
proof -
  assume ne: "detectionResults F p R \<noteq> []"
  then have "sortResults (detectionResults F p R) \<noteq> []"
    by (simp add: sortResults_def sort_key_Nil_iff)
  then obtain r rest where sr: "sortResults (detectionResults F p R) = r # rest"
    by (cases "sortResults (detectionResults F p R)") auto
  have "r = firstBest (detectionResults F p R)"
    using hd_sortResults [OF ne] sr by simp
  then show ?thesis using ne sr by (simp add: detectProjectType_def Let_def)
qed

text \<open>
  Claim C5. \<open>detectProjectType\<close> is a function of the registry, the file system
  and the path, so two calls on an unmodified file system return the same type.
  When, in a registry with distinct keys, a detector registered under \<open>t1\<close>
  before one registered under \<open>t2\<close> matches the directory as the latter does,
  with the same confidence, the result is never \<open>t2\<close>; it is \<open>t1\<close> when no
  matching detector registered earlier reaches that confidence and no matching
  detector registered later exceeds it.
\<close>

theorem detectProjectType_tie_break:
  assumes dist: "distinct (map fst R)"
    and reg: "R = A @ (t1, d1) # B @ (t2, d2) # C"
    and m1: "detect d1 F p = Some True"
    and m2: "detect d2 F p = Some True"
    and tie: "calculateConfidence F p t1 d1 = calculateConfidence F p t2 d2"
  shows "detectProjectType R F p \<noteq> t2
    \<and> ((\<forall>(t, d)\<in>set A. detect d F p = Some True \<longrightarrow>
             calculateConfidence F p t d < calculateConfidence F p t1 d1)
        \<and> (\<forall>(t, d)\<in>set (B @ C). detect d F p = Some True \<longrightarrow>
             calculateConfidence F p t d \<le> calculateConfidence F p t1 d1)
        \<longrightarrow> detectProjectType R F p = t1)"
proof -
  define c where "c = calculateConfidence F p t1 d1"
  define RA where "RA = detectionResults F p A"
  define RB where "RB = detectionResults F p B"
  define RC where "RC = detectionResults F p C"
  define left where "left = RA @ [(t1, c)]"
  define right where "right = RB @ (t2, c) # RC"
  have res: "detectionResults F p R = left @ right"
    using m1 m2 tie
    by (simp add: reg detectionResults_append left_def right_def RA_def RB_def RC_def c_def)
  have ne: "detectionResults F p R \<noteq> []" "left \<noteq> []" "right \<noteq> []"
    by (simp_all add: res left_def right_def)
  have win: "detectProjectType R F p = fst (firstBest (left @ right))"
    using detectProjectType_firstBest [OF ne(1)] res by simp
  have dres: "distinct (map fst (left @ right))"
    using detectionResults_distinct [OF dist, of F p] res by simp
  have t2_right: "(t2, c) \<in> set right" by (simp add: right_def)
  have t1_left: "(t1, c) \<in> set left" by (simp add: left_def)
  have part1: "detectProjectType R F p \<noteq> t2"
  proof (cases "snd (firstBest right) \<le> snd (firstBest left)")
    case True
    then have "firstBest (left @ right) = firstBest left"
      using firstBest_append [OF ne(2,3)] by simp
    moreover have "firstBest left \<in> set left" using ne(2) by (rule firstBest_in)
    moreover have "t2 \<notin> fst ` set left"
      using dres t2_right by (auto simp: rev_image_eqI)
    ultimately show ?thesis using win by (metis imageI)
  next
    case False
    then have fb: "firstBest (left @ right) = firstBest right"
      using firstBest_append [OF ne(2,3)] by simp
    have inr: "firstBest right \<in> set right" using ne(3) by (rule firstBest_in)
    have "c \<le> snd (firstBest left)" using firstBest_max [OF t1_left] by simp
    then have gt: "c < snd (firstBest right)" using False by simp
    show ?thesis
    proof
      assume "detectProjectType R F p = t2"
      then have "fst (firstBest right) = fst (t2, c)" using win fb by simp
      moreover have "inj_on fst (set right)"
        using dres by (simp add: distinct_map)
      ultimately have "firstBest right = (t2, c)"
        using inr t2_right by (meson inj_onD)
      then show False using gt by simp
    qed
  qed
  have part2: "detectProjectType R F p = t1"
    if lower: "\<forall>(t, d)\<in>set A. detect d F p = Some True \<longrightarrow>
             calculateConfidence F p t d < calculateConfidence F p t1 d1"
      and upper: "\<forall>(t, d)\<in>set (B @ C). detect d F p = Some True \<longrightarrow>
             calculateConfidence F p t d \<le> calculateConfidence F p t1 d1"
  proof -
    have ra: "snd r < c" if "r \<in> set RA" for r
      using detectionResults_origin [of r F p A] that lower
      unfolding RA_def c_def by fastforce
    have rr: "snd r \<le> c" if "r \<in> set right" for r
    proof (cases "r = (t2, c)")
      case True
      then show ?thesis by simp
    next
      case False
      then have "r \<in> set (detectionResults F p (B @ C))"
        using that by (auto simp: right_def RB_def RC_def detectionResults_append)
      then show ?thesis
        using detectionResults_origin [of r F p "B @ C"] upper
        unfolding c_def by fastforce
    qed
    have fr: "snd (firstBest right) \<le> c"
      using rr firstBest_in [OF ne(3)] by blast
    have fl: "firstBest left = (t1, c)"
    proof (cases "RA = []")
      case True
      then show ?thesis by (simp add: left_def)
    next
      case False
      have "snd (firstBest RA) < c" using ra firstBest_in [OF False] by blast
      then show ?thesis
        using firstBest_append [OF False, of "[(t1, c)]"] by (simp add: left_def)
    qed
    have "firstBest (left @ right) = (t1, c)"
      using firstBest_append [OF ne(2,3)] fl fr by simp
    then show ?thesis using win by simp
  qed
  show ?thesis using part1 part2 by blast
qed

lemma builtin_confidence:
  "(t, d) \<in> set initializeDetectors \<Longrightarrow> calculateConfidence F p t d = 100"
  by (auto simp: initializeDetectors_def calculateConfidence_def truthy_def Let_def
      JavaScriptProjectDetector_def PythonProjectDetector_def GoProjectDetector_def)

lemma initializeDetectors_eq:
  "initializeDetectors =
     [] @ (JAVASCRIPT, JavaScriptProjectDetector) # [] @ (TYPESCRIPT, JavaScriptProjectDetector)
        # [(PYTHON, PythonProjectDetector), (GO, GoProjectDetector)]"
  by (simp add: initializeDetectors_def)

text \<open>
  The witness: on a disk where every path exists, the JavaScript detector,
  registered under two types, matches twice with the same confidence, and the
  type registered first is the result.
\<close>

theorem detectProjectType_tie_break_witness:
  "distinct (map fst initializeDetectors)
   \<and> detect JavaScriptProjectDetector plainDisk [''proj''] = Some True
   \<and> calculateConfidence plainDisk [''proj''] JAVASCRIPT JavaScriptProjectDetector
       = calculateConfidence plainDisk [''proj''] TYPESCRIPT JavaScriptProjectDetector
   \<and> detectProjectType initializeDetectors plainDisk [''proj''] \<noteq> TYPESCRIPT
   \<and> detectProjectType initializeDetectors plainDisk [''proj''] = JAVASCRIPT"
proof -
  have h1: "distinct (map fst initializeDetectors)"
    by (simp add: initializeDetectors_def)
  have h2: "detect JavaScriptProjectDetector plainDisk [''proj''] = Some True"
    by (simp add: JavaScriptProjectDetector_def fileExists_def plainDisk_def)
  have conf: "calculateConfidence plainDisk [''proj''] t d = 100"
    if "(t, d) \<in> set initializeDetectors" for t d
    using that by (rule builtin_confidence)
  have h3: "calculateConfidence plainDisk [''proj''] JAVASCRIPT JavaScriptProjectDetector
       = calculateConfidence plainDisk [''proj''] TYPESCRIPT JavaScriptProjectDetector"
    using conf by (simp add: initializeDetectors_def)
  have h4: "\<forall>(t, d)\<in>set []. detect d plainDisk [''proj''] = Some True \<longrightarrow>
       calculateConfidence plainDisk [''proj''] t d
         < calculateConfidence plainDisk [''proj''] JAVASCRIPT JavaScriptProjectDetector"
    by simp
  have h5: "\<forall>(t, d)\<in>set ([] @ [(PYTHON, PythonProjectDetector), (GO, GoProjectDetector)]).
       detect d plainDisk [''proj''] = Some True \<longrightarrow>
       calculateConfidence plainDisk [''proj''] t d
         \<le> calculateConfidence plainDisk [''proj''] JAVASCRIPT JavaScriptProjectDetector"
    using conf by (simp add: initializeDetectors_def)
  show ?thesis
    using h1 h2 h3 h4 h5
      detectProjectType_tie_break [OF h1 initializeDetectors_eq h2 h2 h3]
    by blast
qed

subsection \<open>The confidence score\<close>

lemma calculateConfidence_disk_independent:
  "calculateConfidence F p t d = calculateConfidence F' p' t d"
  by (simp add: calculateConfidence_def truthy_def)

text \<open>
  Claim C4 against the code. In a project directory that holds only \<open>main.go\<close>,
  the Go detector matches; one declared pattern is present on disk and \<open>go.mod\<close>
  is absent, so the score the claim describes is 60. \<open>calculateConfidence\<close>
  counts every declared pattern, as the promise it filters on is never awaited,
  and grants the bonus because the detector declares \<open>go.mod\<close>: it returns 100.
\<close>

theorem calculateConfidence_ignores_disk:
  "detect GoProjectDetector goOnlyDisk [''proj''] = Some True
   \<and> calculateConfidence goOnlyDisk [''proj''] GO GoProjectDetector = 100
   \<and> claimedConfidence goOnlyDisk [''proj''] GO GoProjectDetector = 60"
  by code_simp

section \<open>Properties of module discovery\<close>

lemma forEntries_cases:
  "v \<in> set (forEntries isRoot recurse cur es) \<Longrightarrow>
     (\<exists>n. \<not> startsWith n ''.'' \<and> isRoot (cur @ [n]) = Some True \<and> v = Recorded (cur @ [n]))
     \<or> (\<exists>n. \<not> startsWith n ''.'' \<and> isRoot (cur @ [n]) = Some False
            \<and> v \<in> set (recurse (cur @ [n])))"
proof (induction es)
  case Nil
  then show ?case by simp
next
  case (Cons e es)
  then show ?case
    by (auto simp: Let_def join_def split: if_splits option.splits bool.splits)
qed

lemma goodVisit_step:
  assumes "goodVisit isRoot maxDepth (cur @ [n]) (depth + 1) v"
    and "\<not> startsWith n ''.''" and "isRoot (cur @ [n]) = Some False"
  shows "goodVisit isRoot maxDepth cur depth v"
proof -
  from assms(1) consider
    (rd) q where "v = Read ((cur @ [n]) @ q)" "descended isRoot (cur @ [n]) q"
      "depth + 1 + int (length q) \<le> maxDepth"
  | (rc) q m where "v = Recorded ((cur @ [n]) @ q @ [m])" "descended isRoot (cur @ [n]) q"
      "\<not> startsWith m ''.''" "isRoot ((cur @ [n]) @ q @ [m]) = Some True"
      "depth + 1 + int (length q) \<le> maxDepth"
    unfolding goodVisit_def by blast
  then show ?thesis
  proof cases
    case rd
    have "v = Read (cur @ (n # q))" "descended isRoot cur (n # q)"
      "depth + int (length (n # q)) \<le> maxDepth"
      using rd assms(2,3) by simp_all
    then show ?thesis unfolding goodVisit_def by blast
  next
    case rc
    have "v = Recorded (cur @ (n # q) @ [m])" "descended isRoot cur (n # q)"
      "isRoot (cur @ (n # q) @ [m]) = Some True"
      "depth + int (length (n # q)) \<le> maxDepth"
      using rc assms(2,3) by simp_all
    then show ?thesis using rc(3) unfolding goodVisit_def by blast
  qed
qed

lemma scanDirectory_good:
  "v \<in> set (scanDirectory isRoot F maxDepth cur depth) \<Longrightarrow> goodVisit isRoot maxDepth cur depth v"
proof (induction isRoot F maxDepth cur depth arbitrary: v rule: scanDirectory.induct)
  case (1 isRoot F maxDepth currentPath depth)
  note unf = scanDirectory.simps [of isRoot F maxDepth currentPath depth]
  from "1.prems" have le: "depth \<le> maxDepth"
    by (auto simp: unf split: if_splits)
  from "1.prems" le consider
    (here) "v = Read currentPath"
  | (below) entries where "readdir F currentPath = Some entries"
      "v \<in> set (forEntries isRoot (\<lambda>fullPath. scanDirectory isRoot F maxDepth fullPath (depth + 1))
                  currentPath entries)"
    by (cases "readdir F currentPath") (auto simp: unf split: if_splits)
  then show ?case
  proof cases
    case here
    have "v = Read (currentPath @ [])" "descended isRoot currentPath []"
      "depth + int (length ([]::path)) \<le> maxDepth"
      using here le by simp_all
    then show ?thesis unfolding goodVisit_def by blast
  next
    case below
    from forEntries_cases [OF below(2)] show ?thesis
    proof (elim disjE exE conjE)
      fix n assume n: "\<not> startsWith n ''.''" "isRoot (currentPath @ [n]) = Some True"
        "v = Recorded (currentPath @ [n])"
      have "v = Recorded (currentPath @ [] @ [n])" "descended isRoot currentPath []"
        "isRoot (currentPath @ [] @ [n]) = Some True"
        "depth + int (length ([]::path)) \<le> maxDepth"
        using n le by simp_all
      then show ?thesis using n(1) unfolding goodVisit_def by blast
    next
      fix n assume n: "\<not> startsWith n ''.''" "isRoot (currentPath @ [n]) = Some False"
        "v \<in> set (scanDirectory isRoot F maxDepth (currentPath @ [n]) (depth + 1))"
      have "\<not> maxDepth < depth" using le by simp
      from "1.IH" [OF this below(1) n(3)]
      have "goodVisit isRoot maxDepth (currentPath @ [n]) (depth + 1) v" .
      then show ?thesis using n(1,2) by (rule goodVisit_step)
    qed
  qed
qed

lemma descended_not_hidden: "descended isRoot cur q \<Longrightarrow> \<forall>n\<in>set q. \<not> startsWith n ''.''"
  by (induction q arbitrary: cur) auto

lemma descended_not_root:
  "descended isRoot cur q \<Longrightarrow> 0 < k \<Longrightarrow> k \<le> length q \<Longrightarrow> isRoot (cur @ take k q) = Some False"
proof (induction q arbitrary: cur k)
  case Nil
  then show ?case by simp
next
  case (Cons n q)
  show ?case
  proof (cases "k = 1")
    case True
    then show ?thesis using Cons.prems by simp
  next
    case False
    then obtain j where j: "k = Suc j" "0 < j" "j \<le> length q"
      using Cons.prems by (cases k) auto
    have "isRoot ((cur @ [n]) @ take j q) = Some False"
      using Cons.IH [of "cur @ [n]" j] Cons.prems(1) j by simp
    then show ?thesis using j by simp
  qed
qed

lemma recordedIn_iff: "p \<in> set (recordedIn vs) \<longleftrightarrow> Recorded p \<in> set vs"
  by (induction vs rule: recordedIn.induct) auto

lemma readIn_iff: "p \<in> set (readIn vs) \<longleftrightarrow> Read p \<in> set vs"
  by (induction vs rule: readIn.induct) auto

lemma recorded_shape:
  assumes "D \<in> set (findModulesWith isRoot F rootPath maxDepth)"
  obtains q n where "D = rootPath @ q @ [n]" "descended isRoot rootPath q"
    "\<not> startsWith n ''.''" "isRoot D = Some True" "int (length q) \<le> maxDepth"
proof -
  have "goodVisit isRoot maxDepth rootPath 0 (Recorded D)"
    using assms scanDirectory_good by (simp add: findModulesWith_def recordedIn_iff)
  then show ?thesis using that unfolding goodVisit_def by auto
qed

lemma read_shape:
  assumes "P \<in> set (directoriesRead isRoot F rootPath maxDepth)"
  obtains q where "P = rootPath @ q" "descended isRoot rootPath q" "int (length q) \<le> maxDepth"
proof -
  have "goodVisit isRoot maxDepth rootPath 0 (Read P)"
    using assms scanDirectory_good by (simp add: directoriesRead_def readIn_iff)
  then show ?thesis using that unfolding goodVisit_def by auto
qed

lemma prefix_chain_not_root:
  assumes "descended isRoot rootPath q" "prefix D (rootPath @ q)" "length rootPath < length D"
  shows "isRoot D = Some False"
proof -
  from assms(2) obtain r where r: "rootPath @ q = D @ r" by (auto simp: prefix_def)
  define k where "k = length D - length rootPath"
  have k: "0 < k" "k \<le> length q"
    using assms(3) r unfolding k_def
    by (auto dest: arg_cong [where f = length])
  have "D = take (length D) (rootPath @ q)" using r by simp
  also have "\<dots> = rootPath @ take k q" using assms(3) by (simp add: k_def)
  finally have "D = rootPath @ take k q" .
  then show ?thesis using descended_not_root [OF assms(1) k] by simp
qed

text \<open>
  Claim C6. Whatever the test \<open>isModuleRoot\<close> answers or throws, for every
  directory \<open>D\<close> that module discovery records: no recorded directory lies
  strictly below \<open>D\<close>, no directory at or below \<open>D\<close> is ever listed (the recursion
  stops at \<open>D\<close>), \<open>D\<close> lies strictly below the root, no component of \<open>D\<close> below the
  root is hidden, and \<open>D\<close> is at most \<open>maxDepth + 1\<close> levels below the root. Every
  directory that is listed is the root or lies below it, has no hidden component
  below the root, and is at most \<open>maxDepth\<close> levels below the root.
\<close>

theorem findModules_prunes:
  "(\<forall>D\<in>set (findModulesWith isRoot F rootPath maxDepth).
      (\<forall>P\<in>set (findModulesWith isRoot F rootPath maxDepth). \<not> strict_prefix D P)
      \<and> (\<forall>P\<in>set (directoriesRead isRoot F rootPath maxDepth). \<not> prefix D P)
      \<and> strict_prefix rootPath D
      \<and> (\<forall>n\<in>set (drop (length rootPath) D). \<not> startsWith n ''.'')
      \<and> int (length D) \<le> int (length rootPath) + maxDepth + 1)
   \<and> (\<forall>P\<in>set (directoriesRead isRoot F rootPath maxDepth).
      prefix rootPath P
      \<and> (\<forall>n\<in>set (drop (length rootPath) P). \<not> startsWith n ''.'')
      \<and> int (length P) \<le> int (length rootPath) + maxDepth)"
proof (intro conjI ballI)
  fix D P
  assume D: "D \<in> set (findModulesWith isRoot F rootPath maxDepth)"
    and P: "P \<in> set (findModulesWith isRoot F rootPath maxDepth)"
  from D obtain q n where d: "D = rootPath @ q @ [n]" "isRoot D = Some True"
    by (rule recorded_shape)
  from P obtain q' n' where p: "P = rootPath @ q' @ [n']" "descended isRoot rootPath q'"
    by (rule recorded_shape)
  show "\<not> strict_prefix D P"
  proof
    assume sp: "strict_prefix D P"
    then have "prefix D (rootPath @ q')"
      using p(1) by (metis append_assoc prefix_snoc strict_prefix_def)
    moreover have "length rootPath < length D" using d(1) by simp
    ultimately have "isRoot D = Some False"
      using prefix_chain_not_root [OF p(2)] by blast
    then show False using d(2) by simp
  qed
next
  fix D P
  assume D: "D \<in> set (findModulesWith isRoot F rootPath maxDepth)"
    and P: "P \<in> set (directoriesRead isRoot F rootPath maxDepth)"
  from D obtain q n where d: "D = rootPath @ q @ [n]" "isRoot D = Some True"
    by (rule recorded_shape)
  from P obtain q' where p: "P = rootPath @ q'" "descended isRoot rootPath q'"
    by (rule read_shape)
  show "\<not> prefix D P"
  proof
    assume "prefix D P"
    then have "prefix D (rootPath @ q')" using p(1) by simp
    moreover have "length rootPath < length D" using d(1) by simp
    ultimately have "isRoot D = Some False"
      using prefix_chain_not_root [OF p(2)] by blast
    then show False using d(2) by simp
  qed
next
  fix D assume D: "D \<in> set (findModulesWith isRoot F rootPath maxDepth)"
  from D obtain q n where d: "D = rootPath @ q @ [n]" "descended isRoot rootPath q"
    "\<not> startsWith n ''.''" "int (length q) \<le> maxDepth"
    by (rule recorded_shape)
  show "strict_prefix rootPath D" using d(1) by (simp add: strict_prefix_def)
  show "int (length D) \<le> int (length rootPath) + maxDepth + 1" using d(1,4) by simp
  show "\<And>m. m \<in> set (drop (length rootPath) D) \<Longrightarrow> \<not> startsWith m ''.''"
    using d(1,3) descended_not_hidden [OF d(2)] by auto
next
  fix P assume P: "P \<in> set (directoriesRead isRoot F rootPath maxDepth)"
  from P obtain q where p: "P = rootPath @ q" "descended isRoot rootPath q"
    "int (length q) \<le> maxDepth"
    by (rule read_shape)
  show "prefix rootPath P" using p(1) by simp
  show "int (length P) \<le> int (length rootPath) + maxDepth" using p(1,3) by simp
  show "\<And>m. m \<in> set (drop (length rootPath) P) \<Longrightarrow> \<not> startsWith m ''.''"
    using p(1) descended_not_hidden [OF p(2)] by auto
qed

text \<open>
  The witness: in the fixture, with a test that answers for every path, package
  \<open>a\<close> is recorded, its nested package is not, and neither \<open>a\<close> nor the hidden
  directory is listed.
\<close>

theorem findModules_prunes_witness:
  "findModulesWith monoRoots monoDisk [''repo''] 3 = [[''repo'', ''packages'', ''a'']]
   \<and> directoriesRead monoRoots monoDisk [''repo''] 3 =
       [[''repo''], [''repo'', ''packages''], [''repo'', ''packages'', ''tools'']]
   \<and> \<not> strict_prefix [''repo'', ''packages'', ''a''] [''repo'', ''packages'', ''a'']
   \<and> \<not> prefix [''repo'', ''packages'', ''a''] [''repo'', ''packages'', ''tools'']
   \<and> strict_prefix [''repo''] [''repo'', ''packages'', ''a'']
   \<and> int (length [''repo'', ''packages'', ''a'']) \<le> int (length [''repo'']) + 3 + 1
   \<and> prefix [''repo''] [''repo'', ''packages'', ''tools'']"
proof -
  have e1: "findModulesWith monoRoots monoDisk [''repo''] 3 = [[''repo'', ''packages'', ''a'']]"
    by code_simp
  have e2: "directoriesRead monoRoots monoDisk [''repo''] 3 =
       [[''repo''], [''repo'', ''packages''], [''repo'', ''packages'', ''tools'']]"
    by code_simp
  show ?thesis
    using e1 e2 findModules_prunes [of monoRoots monoDisk "[''repo'']" 3] by simp
qed

text \<open>
  As \<open>findModules\<close> is written, the test always throws, so that nothing is ever
  recorded.
\<close>

lemma forEntries_unbound: "forEntries (\<lambda>p. None) recurse cur es = []"
  by (induction es) (auto simp: Let_def)

lemma findModules_empty: "findModules this F rootPath maxDepth = []"
  by (simp add: findModules_def findModulesWith_def scanDirectory.simps [of _ _ _ rootPath]
      forEntries_unbound split: option.splits)

section \<open>Properties of the scan orchestrator\<close>


















subsection \<open>The quick scanner on the test fixtures\<close>





lemma percentage_third: "percentage 1 3 = 2345624805922133 / 70368744177664"
  by code_simp



lemma eleven_scan:
  "fst (scan (QuickScanner noMatch elevenDisk aw) fixedClock [''repo''] (Some [QUICK])
          (newQuickScanner (Some limitTen)) H) =
   Inr \<lparr>scan_rootPath = [''repo''], projectType = UNKNOWN, modules = [],
        globalFiles = [], result_ignoredFiles = [],
        scanStatistics =
          \<lparr>totalFiles = 11, scannedFiles = 11, ignoredFiles = 0, modulesFound = 0,
           scanDuration = 5, fileSize = 0, linesOfCode = 0, coverage = 100\<rparr>,
        scanPhases =
          [\<lparr>phase = QUICK, startTime = 0, endTime = 5, duration = 5,
            filesProcessed = 11, status = Completed, error = None\<rparr>],
        recommendations = []\<rparr>"
  by code_simp

text \<open>
  Claim C8 against the code. A new quick scanner with the file limit 10 scans a
  repository of 11 files in the quick phase: the scan returns, the result counts
  11 files, and the only phase record is completed and carries no error,
  whatever the heap holds and whatever the callback of \<open>forEach\<close> would do.
  \<open>shouldStopScan\<close> compares the limit with \<open>scanStatistics.totalFiles\<close>, which is
  written only by \<open>updateStatistics\<close>, after the enumeration.
\<close>

theorem quick_scan_over_file_limit:
  "map_option maxFiles (performanceLimits limitTen) = Some 10
   \<and> map_option length (readdir elevenDisk [''repo'']) = Some 11
   \<and> \<not> isl (fst (scan (QuickScanner noMatch elevenDisk aw) fixedClock [''repo''] (Some [QUICK])
                  (newQuickScanner (Some limitTen)) H))
   \<and> totalFiles (scanStatistics (projr (fst (scan (QuickScanner noMatch elevenDisk aw) fixedClock
        [''repo''] (Some [QUICK]) (newQuickScanner (Some limitTen)) H)))) = 11
   \<and> map status (scanPhases (projr (fst (scan (QuickScanner noMatch elevenDisk aw) fixedClock
        [''repo''] (Some [QUICK]) (newQuickScanner (Some limitTen)) H)))) = [Completed]
   \<and> map error (scanPhases (projr (fst (scan (QuickScanner noMatch elevenDisk aw) fixedClock
        [''repo''] (Some [QUICK]) (newQuickScanner (Some limitTen)) H)))) = [None]"
proof -
  have a: "map_option maxFiles (performanceLimits limitTen) = Some 10"
    by (simp add: limitTen_def)
  have b: "map_option length (readdir elevenDisk [''repo'']) = Some 11"
    by (simp add: elevenDisk_def elevenNames_def)
  show ?thesis
    unfolding eleven_scan using a b by simp
qed



section \<open>Properties of the quick phase\<close>















subsection \<open>The statistics of the quick scan\<close>

lemma filterFiles_subseq: "subseq (fst (filterFiles L F H s ps rootPath)) ps"
  by (induction ps arbitrary: s H) (auto simp: split_beta Let_def)

lemma filterFiles_length: "length (fst (filterFiles L F H s ps rootPath)) \<le> length ps"
  using filterFiles_subseq [of L F H s ps rootPath] by (rule list_emb_length)

lemma updateStatistics_counts:
  "totalFiles (updateStatistics stats allFiles filteredFiles moduleInfos) = int (length allFiles)"
  "scannedFiles (updateStatistics stats allFiles filteredFiles moduleInfos) = int (length filteredFiles)"
  by (simp_all add: updateStatistics_def Let_def)

lemma updateStatistics_coverage:
  "coverage (updateStatistics stats allFiles filteredFiles moduleInfos) =
     (if 0 < length allFiles
      then percentage (int (length filteredFiles)) (int (length allFiles))
      else coverage stats)"
  by (simp add: updateStatistics_def Let_def)

text \<open>
  On a new scanner the statistics are those of claim C3, up to rounding: the
  scanned files are a subsequence of the enumerated ones, and the coverage is
  the double \<open>(scannedFiles / totalFiles) * 100\<close>, or 0, the initial value, when
  no file was enumerated. \<open>updateStatistics\<close> writes the coverage only when
  there are files.
\<close>

lemma updateStatistics_new_scanner:
  "scannedFiles (updateStatistics (scanStatistics initializeScanResult) allFiles
       (fst (filterFiles L F H s allFiles rootPath)) moduleInfos)
     \<le> totalFiles (updateStatistics (scanStatistics initializeScanResult) allFiles
       (fst (filterFiles L F H s allFiles rootPath)) moduleInfos)"
  "coverage (updateStatistics (scanStatistics initializeScanResult) allFiles filteredFiles moduleInfos) =
     (if 0 < length allFiles
      then percentage (int (length filteredFiles)) (int (length allFiles))
      else 0)"
  by (simp_all add: updateStatistics_counts updateStatistics_coverage filterFiles_length
      initializeScanResult_def)

lemma bare_second_scan:
  "(case scan (bareImpl aw) fixedClock [''repo''] (Some [QUICK]) bareScanner H of
      (result1, this1, H1) \<Rightarrow>
        fst (scan (bareImpl aw) fixedClock [''empty''] (Some [QUICK]) this1 H1)) =
   Inr \<lparr>scan_rootPath = [''empty''], projectType = UNKNOWN, modules = [],
        globalFiles = [], result_ignoredFiles = [],
        scanStatistics =
          \<lparr>totalFiles = 0, scannedFiles = 0, ignoredFiles = 0, modulesFound = 0,
           scanDuration = 10, fileSize = 0, linesOfCode = 0,
           coverage = 2345624805922133 / 70368744177664\<rparr>,
        scanPhases =
          [\<lparr>phase = QUICK, startTime = 0, endTime = 5, duration = 5,
            filesProcessed = 3, status = Completed, error = None\<rparr>,
           \<lparr>phase = QUICK, startTime = 0, endTime = 5, duration = 5,
            filesProcessed = 0, status = Completed, error = None\<rparr>],
        recommendations = [deepScanRecommendation]\<rparr>"
  by code_simp

text \<open>
  Claim C3 against the code. A quick scanner that has scanned the repository
  (one file of three is kept: the coverage is the double 33.33333333333333)
  scans the empty directory next: the result counts no file, and its coverage
  is still that of the first scan, not 0.
\<close>

theorem quick_scan_stale_coverage:
  "readdir bareDisk [''empty''] = Some []
   \<and> \<not> isl (fst (scan (bareImpl aw) fixedClock [''empty''] (Some [QUICK])
          (fst (snd (scan (bareImpl aw) fixedClock [''repo''] (Some [QUICK]) bareScanner H)))
          (snd (snd (scan (bareImpl aw) fixedClock [''repo''] (Some [QUICK]) bareScanner H)))))
   \<and> totalFiles (scanStatistics (projr (fst (scan (bareImpl aw) fixedClock [''empty''] (Some [QUICK])
          (fst (snd (scan (bareImpl aw) fixedClock [''repo''] (Some [QUICK]) bareScanner H)))
          (snd (snd (scan (bareImpl aw) fixedClock [''repo''] (Some [QUICK]) bareScanner H))))))) = 0
   \<and> coverage (scanStatistics (projr (fst (scan (bareImpl aw) fixedClock [''empty''] (Some [QUICK])
          (fst (snd (scan (bareImpl aw) fixedClock [''repo''] (Some [QUICK]) bareScanner H)))
          (snd (snd (scan (bareImpl aw) fixedClock [''repo''] (Some [QUICK]) bareScanner H)))))))
       = 2345624805922133 / 70368744177664
   \<and> percentage 1 3 = 2345624805922133 / 70368744177664"
proof -
  have a: "readdir bareDisk [''empty''] = Some []"
    by (simp add: bareDisk_def)
  have b: "fst (scan (bareImpl aw) fixedClock [''empty''] (Some [QUICK])
          (fst (snd (scan (bareImpl aw) fixedClock [''repo''] (Some [QUICK]) bareScanner H)))
          (snd (snd (scan (bareImpl aw) fixedClock [''repo''] (Some [QUICK]) bareScanner H))))
        = Inr \<lparr>scan_rootPath = [''empty''], projectType = UNKNOWN, modules = [],
        globalFiles = [], result_ignoredFiles = [],
        scanStatistics =
          \<lparr>totalFiles = 0, scannedFiles = 0, ignoredFiles = 0, modulesFound = 0,
           scanDuration = 10, fileSize = 0, linesOfCode = 0,
           coverage = 2345624805922133 / 70368744177664\<rparr>,
        scanPhases =
          [\<lparr>phase = QUICK, startTime = 0, endTime = 5, duration = 5,
            filesProcessed = 3, status = Completed, error = None\<rparr>,
           \<lparr>phase = QUICK, startTime = 0, endTime = 5, duration = 5,
            filesProcessed = 0, status = Completed, error = None\<rparr>],
        recommendations = [deepScanRecommendation]\<rparr>"
    using bare_second_scan [of aw H] by (simp add: split_beta)
  show ?thesis
    unfolding b using a percentage_third by simp
qed

end
